theory Spec2Isabelle
  imports Main "HOL-Library.Multiset" "HOL-Library.Option_ord" "HOL-Library.Product_Lexorder"
    "HOL-Library.List_Lexorder"
begin

section \<open>Values, regular expressions and validators\<close>

text \<open>
  The source file \<^verbatim>\<open>backend/recipes/models.py\<close> is a list of Django model classes:
  field declarations with validators, \<^verbatim>\<open>Meta\<close> options and class attributes. The
  declarations are embedded as data, in the order and with the arguments of the source;
  what the framework and the database do with a declaration (field cleaning, column types
  and constraint enforcement at insertion, cascading deletion, default ordering of a
  listing) is embedded as functions that read the declarations. The database is
  PostgreSQL, whose column types and order of checks the insertion follows. Presentation attributes (\<^verbatim>\<open>verbose_name\<close>,
  \<^verbatim>\<open>help_text\<close>, \<^verbatim>\<open>related_name\<close>, validator messages, \<^verbatim>\<open>__str__\<close>) and
  \<^verbatim>\<open>db_index\<close> carry no behaviour that is modelled here and are left out.

  A Python \<^verbatim>\<open>str\<close> is a sequence of code points, and \<^verbatim>\<open>len\<close> counts code points.
\<close>

type_synonym pystr = "nat list"

definition py :: "string \<Rightarrow> pystr" where
  "py cs = map of_char cs"

datatype "value" = StrV pystr | IntV int | RefV nat

datatype error =
    ValidationError "(string \<times> string) list"
  | IntegrityError string
  | DataError string
  | ProtectedError
  | FieldError string

subsection \<open>The two regular expressions the models use\<close>

text \<open>
  \<^verbatim>\<open>'^#[a-fA-F0-9]{6}$'\<close> (the colour of a tag) and Django's \<^verbatim>\<open>validate_slug\<close>,
  \<^verbatim>\<open>'^[-a-zA-Z0-9_]+\Z'\<close>. Both start with \<^verbatim>\<open>^\<close>, so a pattern is a sequence of
  repeated atoms and an end anchor, matched from the start of the string.
  \<^verbatim>\<open>RegexValidator\<close> calls \<^verbatim>\<open>regex.search\<close>; without \<^verbatim>\<open>re.MULTILINE\<close>, \<^verbatim>\<open>$\<close>
  matches at the end of the string and also just before a newline that ends the string,
  while \<^verbatim>\<open>\Z\<close> matches at the end only.
\<close>

datatype re_class = Single char | Range char char

datatype re_atom = Lit char | Class "re_class list"

datatype re_item = Times nat re_atom | Plus re_atom

datatype re_end = Dollar | EndZ

datatype regex = Regex "re_item list" re_end

fun class_ok :: "re_class \<Rightarrow> nat \<Rightarrow> bool" where
  "class_ok (Single a) x = (x = of_char a)"
| "class_ok (Range a b) x = (of_char a \<le> x \<and> x \<le> of_char b)"

fun atom_ok :: "re_atom \<Rightarrow> nat \<Rightarrow> bool" where
  "atom_ok (Lit c) x = (x = of_char c)"
| "atom_ok (Class cs) x = list_ex (\<lambda>c. class_ok c x) cs"

text \<open>The strings that can remain after an item has matched a prefix.\<close>

fun item_match :: "re_item \<Rightarrow> pystr \<Rightarrow> pystr list" where
  "item_match (Times n a) s =
     (if n \<le> length s \<and> list_all (atom_ok a) (take n s) then [drop n s] else [])"
| "item_match (Plus a) s =
     map (\<lambda>k. drop k s) [1 ..< Suc (length (takeWhile (atom_ok a) s))]"

fun items_match :: "re_item list \<Rightarrow> pystr \<Rightarrow> pystr list" where
  "items_match [] s = [s]"
| "items_match (i # is) s = concat (map (items_match is) (item_match i s))"

fun end_ok :: "re_end \<Rightarrow> pystr \<Rightarrow> bool" where
  "end_ok Dollar r = (r = [] \<or> r = [10])"
| "end_ok EndZ r = (r = [])"

fun regex_search :: "regex \<Rightarrow> pystr \<Rightarrow> bool" where
  "regex_search (Regex is e) s = list_ex (end_ok e) (items_match is s)"

subsection \<open>django.core.validators\<close>

text \<open>
  \<^verbatim>\<open>MaxLengthValidator(n)\<close> rejects a value with \<^verbatim>\<open>len(value) > n\<close>,
  \<^verbatim>\<open>MinValueValidator(a)\<close> one with \<^verbatim>\<open>value < a\<close>, \<^verbatim>\<open>MaxValueValidator(b)\<close> one with
  \<^verbatim>\<open>value > b\<close>, and \<^verbatim>\<open>RegexValidator(regex, code)\<close> one that the regex does not find.
  The result is the error code of the rejection.
\<close>

datatype str_validator = MaxLengthValidator nat | RegexValidator regex string

datatype int_validator = MinValueValidator int | MaxValueValidator int

fun validate_str :: "str_validator \<Rightarrow> pystr \<Rightarrow> string option" where
  "validate_str (MaxLengthValidator n) x = (if length x > n then Some ''max_length'' else None)"
| "validate_str (RegexValidator re code) x = (if regex_search re x then None else Some code)"

fun validate_int :: "int_validator \<Rightarrow> int \<Rightarrow> string option" where
  "validate_int (MinValueValidator a) x = (if x < a then Some ''min_value'' else None)"
| "validate_int (MaxValueValidator b) x = (if x > b then Some ''max_value'' else None)"

definition validate_slug :: str_validator where
  "validate_slug =
     RegexValidator
       (Regex [Plus (Class [Single CHR ''-'', Range CHR ''a'' CHR ''z'', Range CHR ''A'' CHR ''Z'',
                            Range CHR ''0'' CHR ''9'', Single CHR ''_''])] EndZ)
       ''invalid''"

section \<open>Field and model declarations\<close>

datatype model_name =
  UserM | RecipeM | TagM | IngredientM | RecipeIngredientM | RecipeTagM | FavoriteM | ShoppingCartM

datatype on_delete = CASCADE | PROTECT

text \<open>
  A field declaration, with the arguments the source gives: the target and
  \<^verbatim>\<open>on_delete\<close> of a foreign key; the target and \<^verbatim>\<open>through\<close> model of a many-to-many
  field; \<^verbatim>\<open>max_length\<close>, \<^verbatim>\<open>unique\<close> and \<^verbatim>\<open>validators\<close> of a character field;
  \<^verbatim>\<open>max_length\<close> and \<^verbatim>\<open>unique\<close> of a slug field; the validators of a text field and of
  a positive small integer field; \<^verbatim>\<open>upload_to\<close> of an image field.
\<close>

datatype field =
    ForeignKey model_name on_delete
  | ManyToManyField model_name model_name
  | CharField nat bool "str_validator list"
  | SlugField nat bool
  | TextField "str_validator list"
  | ImageField string
  | PositiveSmallIntegerField "int_validator list"

datatype constraint = UniqueConstraint "string list" string

text \<open>
  A model class: its fields, the \<^verbatim>\<open>ordering\<close> and \<^verbatim>\<open>constraints\<close> of its inner
  \<^verbatim>\<open>Meta\<close> class, and a \<^verbatim>\<open>constraints\<close> list assigned in the class body outside
  \<^verbatim>\<open>Meta\<close>. The framework reads model options from \<^verbatim>\<open>Meta\<close> only; an attribute of the
  class body that is not a field is an ordinary Python class attribute.
\<close>

record model_decl =
  model_fields :: "(string \<times> field) list"
  Meta_ordering :: "string list"
  Meta_constraints :: "constraint list"
  class_constraints :: "constraint list"

definition Recipe_model :: model_decl where
  "Recipe_model = \<lparr>
     model_fields = [
       (''author'', ForeignKey UserM CASCADE),
       (''name'', CharField 200 False []),
       (''image'', ImageField ''recipes/''),
       (''text'', TextField [MaxLengthValidator 1000]),
       (''ingredients'', ManyToManyField IngredientM RecipeIngredientM),
       (''tags'', ManyToManyField TagM RecipeTagM),
       (''cooking_time'', PositiveSmallIntegerField [MinValueValidator 1, MaxValueValidator 600])],
     Meta_ordering = [''-id''],
     Meta_constraints = [],
     class_constraints = [] \<rparr>"

definition Tag_model :: model_decl where
  "Tag_model = \<lparr>
     model_fields = [
       (''name'', CharField 200 True []),
       (''color'', CharField 7 True
          [RegexValidator
             (Regex [Times 1 (Lit CHR ''#''),
                     Times 6 (Class [Range CHR ''a'' CHR ''f'', Range CHR ''A'' CHR ''F'',
                                     Range CHR ''0'' CHR ''9''])] Dollar)
             ''wrong_hex_code'']),
       (''slug'', SlugField 200 True)],
     Meta_ordering = [''name''],
     Meta_constraints = [],
     class_constraints = [] \<rparr>"

definition Ingredient_model :: model_decl where
  "Ingredient_model = \<lparr>
     model_fields = [
       (''name'', CharField 200 False []),
       (''measurement_unit'', CharField 200 False [])],
     Meta_ordering = [''name''],
     Meta_constraints = [],
     class_constraints = [] \<rparr>"

definition RecipeIngredient_model :: model_decl where
  "RecipeIngredient_model = \<lparr>
     model_fields = [
       (''recipe'', ForeignKey RecipeM CASCADE),
       (''ingredient'', ForeignKey IngredientM CASCADE),
       (''amount'', PositiveSmallIntegerField [MinValueValidator 1, MaxValueValidator 1000])],
     Meta_ordering = [],
     Meta_constraints = [UniqueConstraint [''recipe'', ''ingredient''] ''unique_recipeingredient''],
     class_constraints = [] \<rparr>"

definition RecipeTag_model :: model_decl where
  "RecipeTag_model = \<lparr>
     model_fields = [
       (''recipe'', ForeignKey RecipeM CASCADE),
       (''tag'', ForeignKey TagM CASCADE)],
     Meta_ordering = [],
     Meta_constraints = [],
     class_constraints = [UniqueConstraint [''user'', ''recipe''] ''unique_tag''] \<rparr>"

definition Favorite_model :: model_decl where
  "Favorite_model = \<lparr>
     model_fields = [
       (''user'', ForeignKey UserM CASCADE),
       (''recipe'', ForeignKey RecipeM CASCADE)],
     Meta_ordering = [],
     Meta_constraints = [UniqueConstraint [''user'', ''recipe''] ''unique_favorite''],
     class_constraints = [] \<rparr>"

definition ShoppingCart_model :: model_decl where
  "ShoppingCart_model = \<lparr>
     model_fields = [
       (''user'', ForeignKey UserM CASCADE),
       (''recipe'', ForeignKey RecipeM CASCADE)],
     Meta_ordering = [],
     Meta_constraints = [],
     class_constraints = [UniqueConstraint [''user'', ''recipe''] ''unique_shopping_cart''] \<rparr>"

section \<open>Rows and tables\<close>

text \<open>
  A row of a model holds the columns the class declares; the primary key \<^verbatim>\<open>id\<close>, which
  the framework adds to every model, is kept beside the row. A table is its rows in
  insertion order and the next value of its key sequence.
\<close>

record Recipe =
  author :: nat
  name :: pystr
  image :: pystr
  text' :: pystr
  cooking_time :: int

record Tag =
  name :: pystr
  color :: pystr
  slug :: pystr

record Ingredient =
  name :: pystr
  measurement_unit :: pystr

record RecipeIngredient =
  recipe :: nat
  ingredient :: nat
  amount :: int

record RecipeTag =
  recipe :: nat
  tag :: nat

record Favorite =
  user :: nat
  recipe :: nat

record ShoppingCart =
  user :: nat
  recipe :: nat

definition Recipe_values :: "Recipe \<Rightarrow> (string \<times> value) list" where
  "Recipe_values r =
     [(''author'', RefV (author r)), (''name'', StrV (Recipe.name r)), (''image'', StrV (image r)),
      (''text'', StrV (text' r)), (''cooking_time'', IntV (cooking_time r))]"

definition Tag_values :: "Tag \<Rightarrow> (string \<times> value) list" where
  "Tag_values r =
     [(''name'', StrV (Tag.name r)), (''color'', StrV (color r)), (''slug'', StrV (slug r))]"

definition Ingredient_values :: "Ingredient \<Rightarrow> (string \<times> value) list" where
  "Ingredient_values r =
     [(''name'', StrV (Ingredient.name r)), (''measurement_unit'', StrV (measurement_unit r))]"

definition RecipeIngredient_values :: "RecipeIngredient \<Rightarrow> (string \<times> value) list" where
  "RecipeIngredient_values r =
     [(''recipe'', RefV (RecipeIngredient.recipe r)), (''ingredient'', RefV (ingredient r)),
      (''amount'', IntV (amount r))]"

definition RecipeTag_values :: "RecipeTag \<Rightarrow> (string \<times> value) list" where
  "RecipeTag_values r = [(''recipe'', RefV (RecipeTag.recipe r)), (''tag'', RefV (tag r))]"

definition Favorite_values :: "Favorite \<Rightarrow> (string \<times> value) list" where
  "Favorite_values r = [(''user'', RefV (Favorite.user r)), (''recipe'', RefV (Favorite.recipe r))]"

definition ShoppingCart_values :: "ShoppingCart \<Rightarrow> (string \<times> value) list" where
  "ShoppingCart_values r =
     [(''user'', RefV (ShoppingCart.user r)), (''recipe'', RefV (ShoppingCart.recipe r))]"

record 'r table =
  rows :: "(nat \<times> 'r) list"
  seq :: nat

text \<open>
  Modelled from the spec: the User entity (\<^verbatim>\<open>users.User\<close>, declared in another
  application of the repository) is known here only as the target of foreign keys, so a
  user is its primary key.
\<close>

record db =
  users :: "nat list"
  recipes :: "Recipe table"
  tags :: "Tag table"
  ingredients :: "Ingredient table"
  recipe_ingredients :: "RecipeIngredient table"
  recipe_tags :: "RecipeTag table"
  favorites :: "Favorite table"
  shopping_carts :: "ShoppingCart table"

definition empty_table :: "'r table" where
  "empty_table = \<lparr>rows = [], seq = 1\<rparr>"

definition init_db :: db where
  "init_db = \<lparr>users = [], recipes = empty_table, tags = empty_table, ingredients = empty_table,
     recipe_ingredients = empty_table, recipe_tags = empty_table, favorites = empty_table,
     shopping_carts = empty_table\<rparr>"


fun row_exists :: "db \<Rightarrow> model_name \<Rightarrow> nat \<Rightarrow> bool" where
  "row_exists d UserM i = (i \<in> set (users d))"
| "row_exists d RecipeM i = (i \<in> set (map fst (rows (recipes d))))"
| "row_exists d TagM i = (i \<in> set (map fst (rows (tags d))))"
| "row_exists d IngredientM i = (i \<in> set (map fst (rows (ingredients d))))"
| "row_exists d RecipeIngredientM i = (i \<in> set (map fst (rows (recipe_ingredients d))))"
| "row_exists d RecipeTagM i = (i \<in> set (map fst (rows (recipe_tags d))))"
| "row_exists d FavoriteM i = (i \<in> set (map fst (rows (favorites d))))"
| "row_exists d ShoppingCartM i = (i \<in> set (map fst (rows (shopping_carts d))))"

section \<open>Validation\<close>

text \<open>
  The validators a field declares are run by \<^verbatim>\<open>Model.clean_fields\<close> (part of
  \<^verbatim>\<open>full_clean\<close>), which a caller such as a form or a serializer invokes; saving a row
  does not run them. A field with \<^verbatim>\<open>blank=False\<close> (the default, which no field of the
  file overrides) rejects the empty string, and otherwise every validator of the field
  runs and the error codes are collected. A character field has its declared validators
  followed by \<^verbatim>\<open>MaxLengthValidator(max_length)\<close>; a slug field has \<^verbatim>\<open>validate_slug\<close>
  and then the length validator; a foreign key is \<^verbatim>\<open>invalid\<close> when the row it names
  does not exist. The range validators that an integer column type implies are weaker
  than the declared ones of both integer fields and are left out.
\<close>

definition clean_str :: "str_validator list \<Rightarrow> pystr \<Rightarrow> string list" where
  "clean_str vs x = (if x = [] then [''blank''] else List.map_filter (\<lambda>v. validate_str v x) vs)"

fun clean_field :: "db \<Rightarrow> field \<Rightarrow> value \<Rightarrow> string list" where
  "clean_field d (CharField n u vs) (StrV x) = clean_str (vs @ [MaxLengthValidator n]) x"
| "clean_field d (SlugField n u) (StrV x) = clean_str [validate_slug, MaxLengthValidator n] x"
| "clean_field d (TextField vs) (StrV x) = clean_str vs x"
| "clean_field d (ImageField up) (StrV x) = clean_str [] x"
| "clean_field d (PositiveSmallIntegerField vs) (IntV x) =
     List.map_filter (\<lambda>v. validate_int v x) vs"
| "clean_field d (ForeignKey m od) (RefV i) = (if row_exists d m i then [] else [''invalid''])"
| "clean_field d _ _ = [''invalid'']"

definition clean_fields ::
  "db \<Rightarrow> model_decl \<Rightarrow> (string \<times> value) list \<Rightarrow> (string \<times> string) list" where
  "clean_fields d m vals =
     concat (map (\<lambda>(n, f). case map_of vals n of
                               None \<Rightarrow> []
                             | Some v \<Rightarrow> map (Pair n) (clean_field d f v))
                 (model_fields m))"

section \<open>Insertion\<close>

text \<open>
  \<^verbatim>\<open>Model.save\<close> and \<^verbatim>\<open>objects.create\<close> write the row as it is given; what is refused
  is what the database refuses, in this order. A value must fit the type of its column:
  a character or slug field is \<^verbatim>\<open>varchar(max_length)\<close>, an image field is
  \<^verbatim>\<open>varchar(100)\<close> (the default \<^verbatim>\<open>max_length\<close> of a file field), a text field is
  unbounded, and a positive small integer field is \<^verbatim>\<open>smallint\<close>, -32768 to 32767.
  A string can be stored only when it has no NUL and every code point is a Unicode scalar
  value; a string that cannot is refused like one that is too long.
  A positive small integer column has the check constraint \<^verbatim>\<open>>= 0\<close>. No unique
  constraint is repeated, where the unique constraints of a table are those of its fields
  declared \<^verbatim>\<open>unique=True\<close> and those listed in \<^verbatim>\<open>Meta.constraints\<close>;
  \<^verbatim>\<open>class_constraints\<close> is not read. Every foreign key names an existing row. A
  constraint over a column the model does not have cannot be created at all.
\<close>

definition scalar :: "nat \<Rightarrow> bool" where
  "scalar c = (0 < c \<and> c \<le> 1114111 \<and> \<not> (55296 \<le> c \<and> c \<le> 57343))"

definition storable :: "pystr \<Rightarrow> bool" where
  "storable x = list_all scalar x"

fun column_ok :: "field \<Rightarrow> value option \<Rightarrow> bool" where
  "column_ok (CharField n u vs) (Some (StrV x)) = (storable x \<and> length x \<le> n)"
| "column_ok (SlugField n u) (Some (StrV x)) = (storable x \<and> length x \<le> n)"
| "column_ok (ImageField up) (Some (StrV x)) = (storable x \<and> length x \<le> 100)"
| "column_ok (TextField vs) (Some (StrV x)) = storable x"
| "column_ok (PositiveSmallIntegerField vs) (Some (IntV x)) = (- 32768 \<le> x \<and> x \<le> 32767)"
| "column_ok _ _ = True"

fun check_ok :: "field \<Rightarrow> value option \<Rightarrow> bool" where
  "check_ok (PositiveSmallIntegerField vs) (Some (IntV x)) = (0 \<le> x)"
| "check_ok _ _ = True"

fun fk_ok :: "db \<Rightarrow> field \<Rightarrow> value option \<Rightarrow> bool" where
  "fk_ok d (ForeignKey m od) (Some (RefV i)) = row_exists d m i"
| "fk_ok d (ForeignKey m od) _ = False"
| "fk_ok d _ _ = True"

definition column_violations :: "model_decl \<Rightarrow> (string \<times> value) list \<Rightarrow> (string \<times> field) list" where
  "column_violations m vals = filter (\<lambda>(n, f). \<not> column_ok f (map_of vals n)) (model_fields m)"

definition check_violations :: "model_decl \<Rightarrow> (string \<times> value) list \<Rightarrow> (string \<times> field) list" where
  "check_violations m vals = filter (\<lambda>(n, f). \<not> check_ok f (map_of vals n)) (model_fields m)"

definition fk_violations :: "db \<Rightarrow> model_decl \<Rightarrow> (string \<times> value) list \<Rightarrow> (string \<times> field) list" where
  "fk_violations d m vals = filter (\<lambda>(n, f). \<not> fk_ok d f (map_of vals n)) (model_fields m)"

fun field_unique :: "field \<Rightarrow> bool" where
  "field_unique (CharField n u vs) = u"
| "field_unique (SlugField n u) = u"
| "field_unique _ = False"

fun is_column :: "field \<Rightarrow> bool" where
  "is_column (ManyToManyField m t) = False"
| "is_column _ = True"

definition column_names :: "model_decl \<Rightarrow> string list" where
  "column_names m = map fst (filter (\<lambda>(n, f). is_column f) (model_fields m))"

definition db_constraints :: "model_decl \<Rightarrow> constraint list" where
  "db_constraints m =
     map (\<lambda>(n, f). UniqueConstraint [n] (n @ ''_key''))
         (filter (\<lambda>(n, f). field_unique f) (model_fields m))
     @ Meta_constraints m"

fun resolves :: "model_decl \<Rightarrow> constraint \<Rightarrow> bool" where
  "resolves m (UniqueConstraint fs n) = list_all (\<lambda>f. f \<in> set (column_names m)) fs"

fun violates :: "constraint \<Rightarrow> (string \<times> value) list \<Rightarrow> (string \<times> value) list \<Rightarrow> bool" where
  "violates (UniqueConstraint fs n) old new = (map (map_of old) fs = map (map_of new) fs)"

fun constraint_name :: "constraint \<Rightarrow> string" where
  "constraint_name (UniqueConstraint fs n) = n"

definition save ::
  "db \<Rightarrow> model_decl \<Rightarrow> ('r \<Rightarrow> (string \<times> value) list) \<Rightarrow> 'r table \<Rightarrow> 'r \<Rightarrow> error + 'r table" where
  "save d m vals t r =
     (case filter (\<lambda>c. \<not> resolves m c) (db_constraints m) of
        c # cs \<Rightarrow> Inl (FieldError (constraint_name c))
      | [] \<Rightarrow>
     (case column_violations m (vals r) of
        nf # nfs \<Rightarrow> Inl (DataError (fst nf))
      | [] \<Rightarrow>
     (case check_violations m (vals r) of
        nf # nfs \<Rightarrow> Inl (IntegrityError (fst nf @ ''_check''))
      | [] \<Rightarrow>
     (case filter (\<lambda>c. list_ex (\<lambda>old. violates c (vals (snd old)) (vals r)) (rows t))
                  (db_constraints m) of
        c # cs \<Rightarrow> Inl (IntegrityError (constraint_name c))
      | [] \<Rightarrow>
     (case fk_violations d m (vals r) of
        nf # nfs \<Rightarrow> Inl (IntegrityError (fst nf))
      | [] \<Rightarrow> Inr \<lparr>rows = rows t @ [(seq t, r)], seq = Suc (seq t)\<rparr>)))))"

definition and_then :: "error + 'a \<Rightarrow> ('a \<Rightarrow> error + 'b) \<Rightarrow> error + 'b" where
  "and_then x f = (case x of Inl e \<Rightarrow> Inl e | Inr a \<Rightarrow> f a)"

text \<open>\<^verbatim>\<open>objects.create\<close> of each model: the row is saved into the table of the model.\<close>

definition create_User :: "db \<Rightarrow> nat \<Rightarrow> error + db" where
  "create_User d u =
     (if u \<in> set (users d) then Inl (IntegrityError ''pk'') else Inr (d\<lparr>users := users d @ [u]\<rparr>))"

definition create_Recipe :: "db \<Rightarrow> Recipe \<Rightarrow> error + db" where
  "create_Recipe d r =
     and_then (save d Recipe_model Recipe_values (recipes d) r) (\<lambda>t. Inr (d\<lparr>recipes := t\<rparr>))"

definition create_Tag :: "db \<Rightarrow> Tag \<Rightarrow> error + db" where
  "create_Tag d r =
     and_then (save d Tag_model Tag_values (tags d) r) (\<lambda>t. Inr (d\<lparr>tags := t\<rparr>))"

definition create_Ingredient :: "db \<Rightarrow> Ingredient \<Rightarrow> error + db" where
  "create_Ingredient d r =
     and_then (save d Ingredient_model Ingredient_values (ingredients d) r)
       (\<lambda>t. Inr (d\<lparr>ingredients := t\<rparr>))"

definition create_RecipeIngredient :: "db \<Rightarrow> RecipeIngredient \<Rightarrow> error + db" where
  "create_RecipeIngredient d r =
     and_then (save d RecipeIngredient_model RecipeIngredient_values (recipe_ingredients d) r)
       (\<lambda>t. Inr (d\<lparr>recipe_ingredients := t\<rparr>))"

definition create_RecipeTag :: "db \<Rightarrow> RecipeTag \<Rightarrow> error + db" where
  "create_RecipeTag d r =
     and_then (save d RecipeTag_model RecipeTag_values (recipe_tags d) r)
       (\<lambda>t. Inr (d\<lparr>recipe_tags := t\<rparr>))"

definition create_Favorite :: "db \<Rightarrow> Favorite \<Rightarrow> error + db" where
  "create_Favorite d r =
     and_then (save d Favorite_model Favorite_values (favorites d) r)
       (\<lambda>t. Inr (d\<lparr>favorites := t\<rparr>))"

definition create_ShoppingCart :: "db \<Rightarrow> ShoppingCart \<Rightarrow> error + db" where
  "create_ShoppingCart d r =
     and_then (save d ShoppingCart_model ShoppingCart_values (shopping_carts d) r)
       (\<lambda>t. Inr (d\<lparr>shopping_carts := t\<rparr>))"

section \<open>Deletion\<close>

text \<open>
  Deleting rows of a model collects, in every model that declares a foreign key to it,
  the rows that name one of the deleted keys: with \<^verbatim>\<open>on_delete=CASCADE\<close> they are
  deleted too, with \<^verbatim>\<open>PROTECT\<close> the deletion is refused. Every foreign key of the file
  declares \<^verbatim>\<open>CASCADE\<close>.
\<close>

definition referencing ::
  "model_decl \<Rightarrow> ('r \<Rightarrow> (string \<times> value) list) \<Rightarrow> model_name \<Rightarrow> on_delete \<Rightarrow> nat list
     \<Rightarrow> nat \<times> 'r \<Rightarrow> bool" where
  "referencing m vals tgt od ids row =
     list_ex (\<lambda>(n, f). f = ForeignKey tgt od \<and>
                (case map_of (vals (snd row)) n of Some (RefV i) \<Rightarrow> i \<in> set ids | _ \<Rightarrow> False))
             (model_fields m)"

definition collect ::
  "model_decl \<Rightarrow> ('r \<Rightarrow> (string \<times> value) list) \<Rightarrow> model_name \<Rightarrow> nat list \<Rightarrow> 'r table
     \<Rightarrow> error + 'r table" where
  "collect m vals tgt ids t =
     (if list_ex (referencing m vals tgt PROTECT ids) (rows t) then Inl ProtectedError
      else Inr (t\<lparr>rows := filter (\<lambda>row. \<not> referencing m vals tgt CASCADE ids row) (rows t)\<rparr>))"

definition remove_ids :: "nat list \<Rightarrow> 'r table \<Rightarrow> 'r table" where
  "remove_ids ids t = t\<lparr>rows := filter (\<lambda>row. fst row \<notin> set ids) (rows t)\<rparr>"

definition delete_Recipes :: "nat list \<Rightarrow> db \<Rightarrow> error + db" where
  "delete_Recipes ids d =
     and_then (collect RecipeIngredient_model RecipeIngredient_values RecipeM ids
                 (recipe_ingredients d)) (\<lambda>ri.
     and_then (collect RecipeTag_model RecipeTag_values RecipeM ids (recipe_tags d)) (\<lambda>rt.
     and_then (collect Favorite_model Favorite_values RecipeM ids (favorites d)) (\<lambda>fa.
     and_then (collect ShoppingCart_model ShoppingCart_values RecipeM ids (shopping_carts d)) (\<lambda>sc.
     Inr (d\<lparr>recipes := remove_ids ids (recipes d), recipe_ingredients := ri, recipe_tags := rt,
            favorites := fa, shopping_carts := sc\<rparr>)))))"

definition delete_Recipe :: "nat \<Rightarrow> db \<Rightarrow> error + db" where
  "delete_Recipe i d = delete_Recipes [i] d"

definition delete_Tag :: "nat \<Rightarrow> db \<Rightarrow> error + db" where
  "delete_Tag i d =
     and_then (collect RecipeTag_model RecipeTag_values TagM [i] (recipe_tags d)) (\<lambda>rt.
     Inr (d\<lparr>tags := remove_ids [i] (tags d), recipe_tags := rt\<rparr>))"

definition delete_Ingredient :: "nat \<Rightarrow> db \<Rightarrow> error + db" where
  "delete_Ingredient i d =
     and_then (collect RecipeIngredient_model RecipeIngredient_values IngredientM [i]
                 (recipe_ingredients d)) (\<lambda>ri.
     Inr (d\<lparr>ingredients := remove_ids [i] (ingredients d), recipe_ingredients := ri\<rparr>))"

definition delete_User :: "nat \<Rightarrow> db \<Rightarrow> error + db" where
  "delete_User u d =
     and_then (collect Recipe_model Recipe_values UserM [u] (recipes d)) (\<lambda>rs.
     and_then (collect Favorite_model Favorite_values UserM [u] (favorites d)) (\<lambda>fa.
     and_then (collect ShoppingCart_model ShoppingCart_values UserM [u] (shopping_carts d)) (\<lambda>sc.
     and_then (delete_Recipes
                 (map fst (filter (referencing Recipe_model Recipe_values UserM CASCADE [u])
                                  (rows (recipes d))))
                 (d\<lparr>favorites := fa, shopping_carts := sc\<rparr>)) (\<lambda>d'.
     Inr (d'\<lparr>users := removeAll u (users d')\<rparr>)))))"

section \<open>Default ordering of a listing\<close>

text \<open>
  A listing of a model is ordered by \<^verbatim>\<open>Meta.ordering\<close>: a column name, descending when
  prefixed with \<^verbatim>\<open>-\<close>. How two strings compare is the collation of the database; it is a
  parameter, a function from strings into a linear order. With several entries the first
  is the most significant, which sorting stably from the last entry to the first gives;
  with none the rows come in table order.
\<close>

datatype direction = Asc | Desc

fun parse_ordering :: "string \<Rightarrow> direction \<times> string" where
  "parse_ordering [] = (Asc, [])"
| "parse_ordering (c # cs) = (if c = CHR ''-'' then (Desc, cs) else (Asc, c # cs))"

type_synonym 'k sortkey = "int \<times> 'k option"

fun sort_key_of :: "(pystr \<Rightarrow> 'k) \<Rightarrow> value \<Rightarrow> 'k sortkey" where
  "sort_key_of collate (IntV i) = (i, None)"
| "sort_key_of collate (RefV n) = (int n, None)"
| "sort_key_of collate (StrV x) = (0, Some (collate x))"

definition row_values :: "('r \<Rightarrow> (string \<times> value) list) \<Rightarrow> nat \<times> 'r \<Rightarrow> (string \<times> value) list" where
  "row_values vals row = (''id'', IntV (int (fst row))) # vals (snd row)"

definition key_of ::
  "(pystr \<Rightarrow> 'k) \<Rightarrow> ('r \<Rightarrow> (string \<times> value) list) \<Rightarrow> string \<Rightarrow> nat \<times> 'r \<Rightarrow> 'k sortkey" where
  "key_of collate vals f row =
     (case map_of (row_values vals row) f of
        Some v \<Rightarrow> sort_key_of collate v
      | None \<Rightarrow> (0, None))"

fun sort_dir :: "direction \<Rightarrow> ('a \<Rightarrow> 'k::linorder) \<Rightarrow> 'a list \<Rightarrow> 'a list" where
  "sort_dir Asc k xs = sort_key k xs"
| "sort_dir Desc k xs = rev (sort_key k (rev xs))"

fun order_by ::
  "(pystr \<Rightarrow> 'k::linorder) \<Rightarrow> model_decl \<Rightarrow> ('r \<Rightarrow> (string \<times> value) list) \<Rightarrow> string list
     \<Rightarrow> (nat \<times> 'r) list \<Rightarrow> error + (nat \<times> 'r) list" where
  "order_by collate m vals [] xs = Inr xs"
| "order_by collate m vals (e # es) xs =
     and_then (order_by collate m vals es xs) (\<lambda>ys.
       case parse_ordering e of
         (dir, f) \<Rightarrow>
           if f \<in> set (''id'' # column_names m)
           then Inr (sort_dir dir (key_of collate vals f) ys)
           else Inl (FieldError f))"

definition objects_all ::
  "(pystr \<Rightarrow> 'k::linorder) \<Rightarrow> model_decl \<Rightarrow> ('r \<Rightarrow> (string \<times> value) list) \<Rightarrow> 'r table
     \<Rightarrow> error + (nat \<times> 'r) list" where
  "objects_all collate m vals t = order_by collate m vals (Meta_ordering m) (rows t)"

definition list_Recipes :: "(pystr \<Rightarrow> 'k::linorder) \<Rightarrow> db \<Rightarrow> error + (nat \<times> Recipe) list" where
  "list_Recipes collate d = objects_all collate Recipe_model Recipe_values (recipes d)"

definition list_Tags :: "(pystr \<Rightarrow> 'k::linorder) \<Rightarrow> db \<Rightarrow> error + (nat \<times> Tag) list" where
  "list_Tags collate d = objects_all collate Tag_model Tag_values (tags d)"

definition list_Ingredients :: "(pystr \<Rightarrow> 'k::linorder) \<Rightarrow> db \<Rightarrow> error + (nat \<times> Ingredient) list" where
  "list_Ingredients collate d = objects_all collate Ingredient_model Ingredient_values (ingredients d)"

section \<open>Reachable database states\<close>

text \<open>
  Rows are created by \<^verbatim>\<open>objects.create\<close>, with no validation, and deleted. An insert
  that the database refuses stores nothing; the key drawn from the sequence of the table
  may be spent all the same, depending on where the database refuses the row, and both
  outcomes are admitted. A state is reachable when such steps lead to it from the empty
  database.
\<close>

definition burn :: "'r table \<Rightarrow> 'r table" where
  "burn t = t\<lparr>seq := Suc (seq t)\<rparr>"

inductive step :: "db \<Rightarrow> db \<Rightarrow> bool" where
  s_create_User: "create_User d u = Inr d' \<Longrightarrow> step d d'"
| s_create_Recipe: "create_Recipe d r = Inr d' \<Longrightarrow> step d d'"
| s_create_Tag: "create_Tag d t = Inr d' \<Longrightarrow> step d d'"
| s_create_Ingredient: "create_Ingredient d g = Inr d' \<Longrightarrow> step d d'"
| s_create_RecipeIngredient: "create_RecipeIngredient d ri = Inr d' \<Longrightarrow> step d d'"
| s_create_RecipeTag: "create_RecipeTag d rt = Inr d' \<Longrightarrow> step d d'"
| s_create_Favorite: "create_Favorite d fa = Inr d' \<Longrightarrow> step d d'"
| s_create_ShoppingCart: "create_ShoppingCart d sc = Inr d' \<Longrightarrow> step d d'"
| s_refused_Recipe: "create_Recipe d r = Inl e \<Longrightarrow> step d (d\<lparr>recipes := burn (recipes d)\<rparr>)"
| s_refused_Tag: "create_Tag d t = Inl e \<Longrightarrow> step d (d\<lparr>tags := burn (tags d)\<rparr>)"
| s_refused_Ingredient:
    "create_Ingredient d g = Inl e \<Longrightarrow> step d (d\<lparr>ingredients := burn (ingredients d)\<rparr>)"
| s_refused_RecipeIngredient:
    "create_RecipeIngredient d ri = Inl e
       \<Longrightarrow> step d (d\<lparr>recipe_ingredients := burn (recipe_ingredients d)\<rparr>)"
| s_refused_RecipeTag:
    "create_RecipeTag d rt = Inl e \<Longrightarrow> step d (d\<lparr>recipe_tags := burn (recipe_tags d)\<rparr>)"
| s_refused_Favorite:
    "create_Favorite d fa = Inl e \<Longrightarrow> step d (d\<lparr>favorites := burn (favorites d)\<rparr>)"
| s_refused_ShoppingCart:
    "create_ShoppingCart d sc = Inl e
       \<Longrightarrow> step d (d\<lparr>shopping_carts := burn (shopping_carts d)\<rparr>)"
| s_delete_User: "delete_User i d = Inr d' \<Longrightarrow> step d d'"
| s_delete_Recipe: "delete_Recipe i d = Inr d' \<Longrightarrow> step d d'"
| s_delete_Tag: "delete_Tag i d = Inr d' \<Longrightarrow> step d d'"
| s_delete_Ingredient: "delete_Ingredient i d = Inr d' \<Longrightarrow> step d d'"

inductive reachable :: "db \<Rightarrow> bool" where
  r_init: "reachable init_db"
| r_step: "reachable d \<Longrightarrow> step d d' \<Longrightarrow> reachable d'"

section \<open>An example database\<close>

text \<open>
  One user, five recipes, a tag, an ingredient, and one row in each association table.
  It is reachable, and the worked instances of the theorems below are taken on it.
\<close>

definition ex_recipe :: Recipe where
  "ex_recipe = \<lparr>author = 1, Recipe.name = py ''Soup'', image = py ''recipes/soup.png'',
     text' = py ''Boil.'', cooking_time = 45\<rparr>"

definition ex_tag :: Tag where
  "ex_tag = \<lparr>Tag.name = py ''Lunch'', color = py ''#1aB2cF'', slug = py ''lunch''\<rparr>"

definition ex_ingredient :: Ingredient where
  "ex_ingredient = \<lparr>Ingredient.name = py ''Salt'', measurement_unit = py ''g''\<rparr>"

definition ex_db :: db where
  "ex_db = \<lparr>
     users = [1],
     recipes = \<lparr>rows = [(1, ex_recipe), (2, ex_recipe), (3, ex_recipe), (4, ex_recipe),
                         (5, ex_recipe)], seq = 6\<rparr>,
     tags = \<lparr>rows = [(1, ex_tag)], seq = 2\<rparr>,
     ingredients = \<lparr>rows = [(1, ex_ingredient)], seq = 2\<rparr>,
     recipe_ingredients =
       \<lparr>rows = [(1, \<lparr>RecipeIngredient.recipe = 5, ingredient = 1, amount = 1000\<rparr>)], seq = 2\<rparr>,
     recipe_tags = \<lparr>rows = [(1, \<lparr>RecipeTag.recipe = 5, tag = 1\<rparr>)], seq = 2\<rparr>,
     favorites = \<lparr>rows = [(1, \<lparr>Favorite.user = 1, Favorite.recipe = 4\<rparr>)], seq = 2\<rparr>,
     shopping_carts = \<lparr>rows = [(1, \<lparr>ShoppingCart.user = 1, ShoppingCart.recipe = 4\<rparr>)], seq = 2\<rparr>\<rparr>"

text \<open>The same database with a second tag and a second ingredient, inserted out of name order.\<close>

definition ex_tag2 :: Tag where
  "ex_tag2 = \<lparr>Tag.name = py ''Dinner'', color = py ''#000000'', slug = py ''dinner''\<rparr>"

definition ex_ingredient2 :: Ingredient where
  "ex_ingredient2 = \<lparr>Ingredient.name = py ''Flour'', measurement_unit = py ''g''\<rparr>"

definition ex_db2 :: db where
  "ex_db2 = ex_db\<lparr>tags := \<lparr>rows = [(1, ex_tag), (2, ex_tag2)], seq = 3\<rparr>,
                   ingredients := \<lparr>rows = [(1, ex_ingredient), (2, ex_ingredient2)], seq = 3\<rparr>\<rparr>"

text \<open>
  Rows that no validator would pass, each saved into the example database: a recipe that
  takes 601 minutes, a recipe with a description of 1001 characters, 5000 units of an
  ingredient, and a tag whose colour is the word red.
\<close>

definition ex_recipe_601 :: Recipe where
  "ex_recipe_601 = ex_recipe\<lparr>cooking_time := 601\<rparr>"

definition ex_recipe_long :: Recipe where
  "ex_recipe_long = ex_recipe\<lparr>text' := replicate 1001 120\<rparr>"

definition ex_amount_5000 :: RecipeIngredient where
  "ex_amount_5000 = \<lparr>RecipeIngredient.recipe = 4, ingredient = 1, amount = 5000\<rparr>"

definition ex_tag_red :: Tag where
  "ex_tag_red = \<lparr>Tag.name = py ''Red'', color = py ''red'', slug = py ''red''\<rparr>"

definition ex_db_601 :: db where
  "ex_db_601 = ex_db\<lparr>recipes := \<lparr>rows = rows (recipes ex_db) @ [(6, ex_recipe_601)], seq = 7\<rparr>\<rparr>"

definition ex_db_long :: db where
  "ex_db_long = ex_db\<lparr>recipes := \<lparr>rows = rows (recipes ex_db) @ [(6, ex_recipe_long)], seq = 7\<rparr>\<rparr>"

definition ex_db_5000 :: db where
  "ex_db_5000 =
     ex_db\<lparr>recipe_ingredients :=
             \<lparr>rows = rows (recipe_ingredients ex_db) @ [(2, ex_amount_5000)], seq = 3\<rparr>\<rparr>"

definition ex_db_red :: db where
  "ex_db_red = ex_db\<lparr>tags := \<lparr>rows = rows (tags ex_db) @ [(2, ex_tag_red)], seq = 3\<rparr>\<rparr>"


section \<open>Basic facts about the operations\<close>

lemma and_then_Inr: "and_then x f = Inr y \<longleftrightarrow> (\<exists>a. x = Inr a \<and> f a = Inr y)"
  by (cases x) (simp_all add: and_then_def)

lemma not_Inr_is_Inl: "(\<And>y. x \<noteq> Inr y) \<Longrightarrow> \<exists>e. x = Inl e"
  by (cases x) auto

lemma save_Inr:
  "save d m vals t r = Inr t' \<longleftrightarrow>
     list_all (resolves m) (db_constraints m) \<and>
     column_violations m (vals r) = [] \<and>
     check_violations m (vals r) = [] \<and>
     (\<forall>c \<in> set (db_constraints m). \<forall>old \<in> set (rows t). \<not> violates c (vals (snd old)) (vals r)) \<and>
     fk_violations d m (vals r) = [] \<and>
     t' = \<lparr>rows = rows t @ [(seq t, r)], seq = Suc (seq t)\<rparr>"
  by (auto simp: save_def filter_empty_conv list_all_iff list_ex_iff split: list.splits)

lemma collect_Inr:
  "collect m vals tgt ids t = Inr t' \<Longrightarrow>
     t' = t\<lparr>rows := filter (\<lambda>row. \<not> referencing m vals tgt CASCADE ids row) (rows t)\<rparr>"
  by (simp add: collect_def split: if_splits)

lemmas save_defs = save_Inr db_constraints_def column_violations_def check_violations_def
  fk_violations_def column_names_def

lemma storable_py [simp]: "storable [] \<and> (storable (c # cs) \<longleftrightarrow> scalar c \<and> storable cs)"
  by (simp add: storable_def)

lemma storable_replicate: "scalar c \<Longrightarrow> storable (replicate n c)"
  by (simp add: storable_def list_all_iff)

lemma Recipe_save:
  "save d Recipe_model Recipe_values t r = Inr t' \<longleftrightarrow>
     storable (Recipe.name r) \<and> length (Recipe.name r) \<le> 200 \<and>
     storable (image r) \<and> length (image r) \<le> 100 \<and> storable (text' r) \<and>
     0 \<le> cooking_time r \<and> cooking_time r \<le> 32767 \<and>
     author r \<in> set (users d) \<and>
     t' = \<lparr>rows = rows t @ [(seq t, r)], seq = Suc (seq t)\<rparr>"
  by (auto simp: save_defs Recipe_model_def Recipe_values_def)

lemma Tag_save:
  "save d Tag_model Tag_values t r = Inr t' \<longleftrightarrow>
     storable (Tag.name r) \<and> length (Tag.name r) \<le> 200 \<and>
     storable (color r) \<and> length (color r) \<le> 7 \<and>
     storable (slug r) \<and> length (slug r) \<le> 200 \<and>
     (\<forall>old \<in> set (rows t). Tag.name (snd old) \<noteq> Tag.name r \<and> color (snd old) \<noteq> color r \<and>
                             slug (snd old) \<noteq> slug r) \<and>
     t' = \<lparr>rows = rows t @ [(seq t, r)], seq = Suc (seq t)\<rparr>"
  by (auto simp: save_defs Tag_model_def Tag_values_def)

lemma Ingredient_save:
  "save d Ingredient_model Ingredient_values t r = Inr t' \<longleftrightarrow>
     storable (Ingredient.name r) \<and> length (Ingredient.name r) \<le> 200 \<and>
     storable (measurement_unit r) \<and> length (measurement_unit r) \<le> 200 \<and>
     t' = \<lparr>rows = rows t @ [(seq t, r)], seq = Suc (seq t)\<rparr>"
  by (auto simp: save_defs Ingredient_model_def Ingredient_values_def)

lemma RecipeIngredient_save:
  "save d RecipeIngredient_model RecipeIngredient_values t r = Inr t' \<longleftrightarrow>
     0 \<le> amount r \<and> amount r \<le> 32767 \<and>
     (\<forall>old \<in> set (rows t). \<not> (RecipeIngredient.recipe (snd old) = RecipeIngredient.recipe r \<and>
                                ingredient (snd old) = ingredient r)) \<and>
     RecipeIngredient.recipe r \<in> set (map fst (rows (recipes d))) \<and>
     ingredient r \<in> set (map fst (rows (ingredients d))) \<and>
     t' = \<lparr>rows = rows t @ [(seq t, r)], seq = Suc (seq t)\<rparr>"
  by (auto simp: save_defs RecipeIngredient_model_def RecipeIngredient_values_def)

lemma RecipeTag_save:
  "save d RecipeTag_model RecipeTag_values t r = Inr t' \<longleftrightarrow>
     RecipeTag.recipe r \<in> set (map fst (rows (recipes d))) \<and>
     tag r \<in> set (map fst (rows (tags d))) \<and>
     t' = \<lparr>rows = rows t @ [(seq t, r)], seq = Suc (seq t)\<rparr>"
  by (auto simp: save_defs RecipeTag_model_def RecipeTag_values_def)

lemma Favorite_save:
  "save d Favorite_model Favorite_values t r = Inr t' \<longleftrightarrow>
     (\<forall>old \<in> set (rows t). \<not> (Favorite.user (snd old) = Favorite.user r \<and>
                                Favorite.recipe (snd old) = Favorite.recipe r)) \<and>
     Favorite.user r \<in> set (users d) \<and>
     Favorite.recipe r \<in> set (map fst (rows (recipes d))) \<and>
     t' = \<lparr>rows = rows t @ [(seq t, r)], seq = Suc (seq t)\<rparr>"
  by (auto simp: save_defs Favorite_model_def Favorite_values_def)

lemma ShoppingCart_save:
  "save d ShoppingCart_model ShoppingCart_values t r = Inr t' \<longleftrightarrow>
     ShoppingCart.user r \<in> set (users d) \<and>
     ShoppingCart.recipe r \<in> set (map fst (rows (recipes d))) \<and>
     t' = \<lparr>rows = rows t @ [(seq t, r)], seq = Suc (seq t)\<rparr>"
  by (auto simp: save_defs ShoppingCart_model_def ShoppingCart_values_def)

lemma create_Recipe_Inr:
  "create_Recipe d r = Inr d' \<longleftrightarrow>
     storable (Recipe.name r) \<and> length (Recipe.name r) \<le> 200 \<and>
     storable (image r) \<and> length (image r) \<le> 100 \<and> storable (text' r) \<and>
     0 \<le> cooking_time r \<and> cooking_time r \<le> 32767 \<and>
     author r \<in> set (users d) \<and>
     d' = d\<lparr>recipes := \<lparr>rows = rows (recipes d) @ [(seq (recipes d), r)],
                          seq = Suc (seq (recipes d))\<rparr>\<rparr>"
  by (auto simp: create_Recipe_def and_then_Inr Recipe_save)

lemma create_Tag_Inr:
  "create_Tag d r = Inr d' \<longleftrightarrow>
     storable (Tag.name r) \<and> length (Tag.name r) \<le> 200 \<and>
     storable (color r) \<and> length (color r) \<le> 7 \<and>
     storable (slug r) \<and> length (slug r) \<le> 200 \<and>
     (\<forall>old \<in> set (rows (tags d)). Tag.name (snd old) \<noteq> Tag.name r \<and> color (snd old) \<noteq> color r \<and>
                             slug (snd old) \<noteq> slug r) \<and>
     d' = d\<lparr>tags := \<lparr>rows = rows (tags d) @ [(seq (tags d), r)], seq = Suc (seq (tags d))\<rparr>\<rparr>"
  by (auto simp: create_Tag_def and_then_Inr Tag_save)

lemma create_Ingredient_Inr:
  "create_Ingredient d r = Inr d' \<longleftrightarrow>
     storable (Ingredient.name r) \<and> length (Ingredient.name r) \<le> 200 \<and>
     storable (measurement_unit r) \<and> length (measurement_unit r) \<le> 200 \<and>
     d' = d\<lparr>ingredients := \<lparr>rows = rows (ingredients d) @ [(seq (ingredients d), r)],
                              seq = Suc (seq (ingredients d))\<rparr>\<rparr>"
  by (auto simp: create_Ingredient_def and_then_Inr Ingredient_save)

lemma create_RecipeIngredient_Inr:
  "create_RecipeIngredient d r = Inr d' \<longleftrightarrow>
     0 \<le> amount r \<and> amount r \<le> 32767 \<and>
     (\<forall>old \<in> set (rows (recipe_ingredients d)).
         \<not> (RecipeIngredient.recipe (snd old) = RecipeIngredient.recipe r \<and>
            ingredient (snd old) = ingredient r)) \<and>
     RecipeIngredient.recipe r \<in> set (map fst (rows (recipes d))) \<and>
     ingredient r \<in> set (map fst (rows (ingredients d))) \<and>
     d' = d\<lparr>recipe_ingredients :=
              \<lparr>rows = rows (recipe_ingredients d) @ [(seq (recipe_ingredients d), r)],
               seq = Suc (seq (recipe_ingredients d))\<rparr>\<rparr>"
  by (auto simp: create_RecipeIngredient_def and_then_Inr RecipeIngredient_save)

lemma create_RecipeTag_Inr:
  "create_RecipeTag d r = Inr d' \<longleftrightarrow>
     RecipeTag.recipe r \<in> set (map fst (rows (recipes d))) \<and>
     tag r \<in> set (map fst (rows (tags d))) \<and>
     d' = d\<lparr>recipe_tags := \<lparr>rows = rows (recipe_tags d) @ [(seq (recipe_tags d), r)],
                              seq = Suc (seq (recipe_tags d))\<rparr>\<rparr>"
  by (auto simp: create_RecipeTag_def and_then_Inr RecipeTag_save)

lemma create_Favorite_Inr:
  "create_Favorite d r = Inr d' \<longleftrightarrow>
     (\<forall>old \<in> set (rows (favorites d)).
         \<not> (Favorite.user (snd old) = Favorite.user r \<and>
            Favorite.recipe (snd old) = Favorite.recipe r)) \<and>
     Favorite.user r \<in> set (users d) \<and>
     Favorite.recipe r \<in> set (map fst (rows (recipes d))) \<and>
     d' = d\<lparr>favorites := \<lparr>rows = rows (favorites d) @ [(seq (favorites d), r)],
                            seq = Suc (seq (favorites d))\<rparr>\<rparr>"
  by (auto simp: create_Favorite_def and_then_Inr Favorite_save)

lemma create_ShoppingCart_Inr:
  "create_ShoppingCart d r = Inr d' \<longleftrightarrow>
     ShoppingCart.user r \<in> set (users d) \<and>
     ShoppingCart.recipe r \<in> set (map fst (rows (recipes d))) \<and>
     d' = d\<lparr>shopping_carts := \<lparr>rows = rows (shopping_carts d) @ [(seq (shopping_carts d), r)],
                                 seq = Suc (seq (shopping_carts d))\<rparr>\<rparr>"
  by (auto simp: create_ShoppingCart_def and_then_Inr ShoppingCart_save)

text \<open>When cleaning reports no error.\<close>

lemma validate_MaxLength: "validate_str (MaxLengthValidator n) x = None \<longleftrightarrow> length x \<le> n"
  by auto

lemma validate_Regex: "validate_str (RegexValidator re code) x = None \<longleftrightarrow> regex_search re x"
  by auto

lemma map_filter_Nil: "List.map_filter f xs = [] \<longleftrightarrow> (\<forall>x \<in> set xs. f x = None)"
  by (induction xs) (auto simp: List.map_filter_simps split: option.splits)

lemma clean_str_Nil:
  "clean_str vs x = [] \<longleftrightarrow> x \<noteq> [] \<and> (\<forall>v \<in> set vs. validate_str v x = None)"
  by (simp add: clean_str_def map_filter_Nil)

lemma Recipe_clean:
  "clean_fields d Recipe_model (Recipe_values r) = [] \<longleftrightarrow>
     author r \<in> set (users d) \<and>
     Recipe.name r \<noteq> [] \<and> length (Recipe.name r) \<le> 200 \<and> image r \<noteq> [] \<and>
     text' r \<noteq> [] \<and> length (text' r) \<le> 1000 \<and> 1 \<le> cooking_time r \<and> cooking_time r \<le> 600"
  by (auto simp: clean_fields_def Recipe_model_def Recipe_values_def clean_str_def
        List.map_filter_simps)

lemma RecipeIngredient_clean:
  "clean_fields d RecipeIngredient_model (RecipeIngredient_values r) = [] \<longleftrightarrow>
     RecipeIngredient.recipe r \<in> set (map fst (rows (recipes d))) \<and>
     ingredient r \<in> set (map fst (rows (ingredients d))) \<and>
     1 \<le> amount r \<and> amount r \<le> 1000"
  by (auto simp: clean_fields_def RecipeIngredient_model_def RecipeIngredient_values_def
        List.map_filter_simps)

lemma Tag_clean:
  "clean_fields d Tag_model (Tag_values r) = [] \<longleftrightarrow>
     Tag.name r \<noteq> [] \<and> length (Tag.name r) \<le> 200 \<and>
     color r \<noteq> [] \<and> length (color r) \<le> 7 \<and>
     regex_search (Regex [Times 1 (Lit CHR ''#''),
                     Times 6 (Class [Range CHR ''a'' CHR ''f'', Range CHR ''A'' CHR ''F'',
                                     Range CHR ''0'' CHR ''9''])] Dollar) (color r) \<and>
     slug r \<noteq> [] \<and> length (slug r) \<le> 200 \<and>
     validate_str validate_slug (slug r) = None"
  by (auto simp: clean_fields_def Tag_model_def Tag_values_def clean_str_Nil
        validate_MaxLength validate_Regex
        simp del: regex_search.simps validate_str.simps)

lemma hex_regex_claim:
  "regex_search (Regex [Times 1 (Lit CHR ''#''),
                     Times 6 (Class [Range CHR ''a'' CHR ''f'', Range CHR ''A'' CHR ''F'',
                                     Range CHR ''0'' CHR ''9''])] Dollar) c
   = regex_search (Regex [Times 1 (Lit CHR ''#''),
                     Times 6 (Class [Range CHR ''A'' CHR ''F'', Range CHR ''a'' CHR ''f'',
                                     Range CHR ''0'' CHR ''9''])] Dollar) c"
proof -
  have "atom_ok (Class [Range CHR ''a'' CHR ''f'', Range CHR ''A'' CHR ''F'', Range CHR ''0'' CHR ''9'']) =
        atom_ok (Class [Range CHR ''A'' CHR ''F'', Range CHR ''a'' CHR ''f'', Range CHR ''0'' CHR ''9''])"
    by (rule ext) auto
  then show ?thesis by simp
qed

lemma hex_regex_len:
  assumes "regex_search (Regex [Times 1 (Lit CHR ''#''),
                     Times 6 (Class [Range CHR ''a'' CHR ''f'', Range CHR ''A'' CHR ''F'',
                                     Range CHR ''0'' CHR ''9''])] Dollar) c"
    and "length c \<le> 7"
  shows "length c = 7"
  using assms by (auto split: if_splits)

lemma cooking_time_error:
  "(''cooking_time'', ''max_value'') \<in> set (clean_fields d Recipe_model (Recipe_values r))
     \<longleftrightarrow> cooking_time r > 600"
  by (auto simp: clean_fields_def Recipe_model_def Recipe_values_def clean_str_def
        List.map_filter_simps)

lemma text_error:
  "(''text'', ''max_length'') \<in> set (clean_fields d Recipe_model (Recipe_values r))
     \<longleftrightarrow> length (text' r) > 1000"
  by (auto simp: clean_fields_def Recipe_model_def Recipe_values_def clean_str_def
        List.map_filter_simps)

lemma amount_error:
  "(''amount'', ''min_value'') \<in> set (clean_fields d RecipeIngredient_model (RecipeIngredient_values r))
     \<or> (''amount'', ''max_value'') \<in>
          set (clean_fields d RecipeIngredient_model (RecipeIngredient_values r))
     \<longleftrightarrow> amount r < 1 \<or> amount r > 1000"
  by (auto simp: clean_fields_def RecipeIngredient_model_def RecipeIngredient_values_def
        List.map_filter_simps)

lemma color_error:
  "(''color'', ''wrong_hex_code'') \<in> set (clean_fields d Tag_model (Tag_values r)) \<longleftrightarrow>
     color r \<noteq> [] \<and>
     \<not> regex_search (Regex [Times 1 (Lit CHR ''#''),
                     Times 6 (Class [Range CHR ''a'' CHR ''f'', Range CHR ''A'' CHR ''F'',
                                     Range CHR ''0'' CHR ''9''])] Dollar) (color r)"
  by (auto simp: clean_fields_def Tag_model_def Tag_values_def clean_str_def
        List.map_filter_simps validate_slug_def simp del: regex_search.simps)

lemma Recipe_columns:
  "column_violations Recipe_model (Recipe_values r) = [] \<longleftrightarrow>
     storable (Recipe.name r) \<and> length (Recipe.name r) \<le> 200 \<and>
     storable (image r) \<and> length (image r) \<le> 100 \<and> storable (text' r) \<and>
     - 32768 \<le> cooking_time r \<and> cooking_time r \<le> 32767"
  by (auto simp: column_violations_def Recipe_model_def Recipe_values_def)

lemma other_fields_valid:
  "(\<forall>e \<in> set (clean_fields d Recipe_model (Recipe_values r)). fst e = ''cooking_time'')
     \<longleftrightarrow> author r \<in> set (users d) \<and>
          Recipe.name r \<noteq> [] \<and> length (Recipe.name r) \<le> 200 \<and> image r \<noteq> [] \<and>
          text' r \<noteq> [] \<and> length (text' r) \<le> 1000"
  by (auto simp: clean_fields_def Recipe_model_def Recipe_values_def clean_str_def
        List.map_filter_simps)

text \<open>The example database is reachable.\<close>

lemma reachable_ex_db: "reachable ex_db"
proof -
  have s: "\<And>d d'. reachable d \<Longrightarrow> step d d' \<Longrightarrow> reachable d'"
    by (rule r_step)
  have 0: "reachable (init_db\<lparr>users := [1]\<rparr>)"
    by (rule s [OF r_init], rule s_create_User [of _ 1]) (simp add: create_User_def init_db_def)
  have 1: "reachable (init_db\<lparr>users := [1], recipes := \<lparr>rows = [(1, ex_recipe)], seq = 2\<rparr>\<rparr>)"
    by (rule s [OF 0], rule s_create_Recipe [of _ ex_recipe])
       (simp add: create_Recipe_Inr init_db_def empty_table_def, simp add: ex_recipe_def py_def scalar_def)
  have 2: "reachable (init_db\<lparr>users := [1],
              recipes := \<lparr>rows = [(1, ex_recipe), (2, ex_recipe)], seq = 3\<rparr>\<rparr>)"
    by (rule s [OF 1], rule s_create_Recipe [of _ ex_recipe])
       (simp add: create_Recipe_Inr init_db_def empty_table_def, simp add: ex_recipe_def py_def scalar_def)
  have 3: "reachable (init_db\<lparr>users := [1],
              recipes := \<lparr>rows = [(1, ex_recipe), (2, ex_recipe), (3, ex_recipe)], seq = 4\<rparr>\<rparr>)"
    by (rule s [OF 2], rule s_create_Recipe [of _ ex_recipe])
       (simp add: create_Recipe_Inr init_db_def empty_table_def, simp add: ex_recipe_def py_def scalar_def)
  have 4: "reachable (init_db\<lparr>users := [1],
              recipes := \<lparr>rows = [(1, ex_recipe), (2, ex_recipe), (3, ex_recipe), (4, ex_recipe)],
                           seq = 5\<rparr>\<rparr>)"
    by (rule s [OF 3], rule s_create_Recipe [of _ ex_recipe])
       (simp add: create_Recipe_Inr init_db_def empty_table_def, simp add: ex_recipe_def py_def scalar_def)
  have 5: "reachable (init_db\<lparr>users := [1], recipes := recipes ex_db\<rparr>)"
    by (rule s [OF 4], rule s_create_Recipe [of _ ex_recipe])
       (simp add: create_Recipe_Inr init_db_def empty_table_def ex_db_def,
        simp add: ex_recipe_def py_def scalar_def)
  have 6: "reachable (init_db\<lparr>users := [1], recipes := recipes ex_db, tags := tags ex_db\<rparr>)"
    by (rule s [OF 5], rule s_create_Tag [of _ ex_tag])
       (simp add: create_Tag_Inr init_db_def empty_table_def ex_db_def,
        simp add: ex_tag_def py_def scalar_def)
  have 7: "reachable (init_db\<lparr>users := [1], recipes := recipes ex_db, tags := tags ex_db,
              ingredients := ingredients ex_db\<rparr>)"
    by (rule s [OF 6], rule s_create_Ingredient [of _ ex_ingredient])
       (simp add: create_Ingredient_Inr init_db_def empty_table_def ex_db_def,
        simp add: ex_ingredient_def py_def scalar_def)
  have 8: "reachable (init_db\<lparr>users := [1], recipes := recipes ex_db, tags := tags ex_db,
              ingredients := ingredients ex_db, recipe_ingredients := recipe_ingredients ex_db\<rparr>)"
    by (rule s [OF 7],
        rule s_create_RecipeIngredient [of _ "\<lparr>RecipeIngredient.recipe = 5, ingredient = 1, amount = 1000\<rparr>"])
       (simp add: create_RecipeIngredient_Inr init_db_def empty_table_def ex_db_def)
  have 9: "reachable (init_db\<lparr>users := [1], recipes := recipes ex_db, tags := tags ex_db,
              ingredients := ingredients ex_db, recipe_ingredients := recipe_ingredients ex_db,
              recipe_tags := recipe_tags ex_db\<rparr>)"
    by (rule s [OF 8], rule s_create_RecipeTag [of _ "\<lparr>RecipeTag.recipe = 5, tag = 1\<rparr>"])
       (simp add: create_RecipeTag_Inr init_db_def empty_table_def ex_db_def)
  have 10: "reachable (init_db\<lparr>users := [1], recipes := recipes ex_db, tags := tags ex_db,
              ingredients := ingredients ex_db, recipe_ingredients := recipe_ingredients ex_db,
              recipe_tags := recipe_tags ex_db, favorites := favorites ex_db\<rparr>)"
    by (rule s [OF 9], rule s_create_Favorite [of _ "\<lparr>Favorite.user = 1, Favorite.recipe = 4\<rparr>"])
       (simp add: create_Favorite_Inr init_db_def empty_table_def ex_db_def)
  have 11: "reachable (init_db\<lparr>users := [1], recipes := recipes ex_db, tags := tags ex_db,
              ingredients := ingredients ex_db, recipe_ingredients := recipe_ingredients ex_db,
              recipe_tags := recipe_tags ex_db, favorites := favorites ex_db,
              shopping_carts := shopping_carts ex_db\<rparr>)"
    by (rule s [OF 10],
        rule s_create_ShoppingCart [of _ "\<lparr>ShoppingCart.user = 1, ShoppingCart.recipe = 4\<rparr>"])
       (simp add: create_ShoppingCart_Inr init_db_def empty_table_def ex_db_def)
  then show ?thesis by (simp add: init_db_def ex_db_def)
qed

lemma reachable_create_Recipe: "reachable d \<Longrightarrow> create_Recipe d r = Inr d' \<Longrightarrow> reachable d'"
  by (rule r_step, assumption, rule s_create_Recipe)

lemma reachable_create_Tag: "reachable d \<Longrightarrow> create_Tag d r = Inr d' \<Longrightarrow> reachable d'"
  by (rule r_step, assumption, rule s_create_Tag)

lemma reachable_create_RecipeIngredient:
  "reachable d \<Longrightarrow> create_RecipeIngredient d r = Inr d' \<Longrightarrow> reachable d'"
  by (rule r_step, assumption, rule s_create_RecipeIngredient)

text \<open>
  What one step does to a table: nothing, or a saved row is appended, or a key is spent,
  or rows are deleted.
\<close>

lemmas op_defs = create_User_def create_Recipe_def create_Tag_def create_Ingredient_def
      create_RecipeIngredient_def create_RecipeTag_def create_Favorite_def create_ShoppingCart_def
      delete_User_def delete_Recipe_def delete_Recipes_def delete_Tag_def delete_Ingredient_def
      remove_ids_def

lemma step_recipes:
  "step d d' \<Longrightarrow>
     recipes d' = recipes d \<or>
     (\<exists>r. save d Recipe_model Recipe_values (recipes d) r = Inr (recipes d')) \<or>
     recipes d' = burn (recipes d) \<or>
     (\<exists>P. recipes d' = (recipes d)\<lparr>rows := filter P (rows (recipes d))\<rparr>)"
  by (erule step.cases) (auto simp: op_defs and_then_Inr split: if_splits dest!: collect_Inr)

lemma step_tags:
  "step d d' \<Longrightarrow>
     tags d' = tags d \<or>
     (\<exists>r. save d Tag_model Tag_values (tags d) r = Inr (tags d')) \<or>
     tags d' = burn (tags d) \<or>
     (\<exists>P. tags d' = (tags d)\<lparr>rows := filter P (rows (tags d))\<rparr>)"
  by (erule step.cases) (auto simp: op_defs and_then_Inr split: if_splits dest!: collect_Inr)

lemma step_recipe_ingredients:
  "step d d' \<Longrightarrow>
     recipe_ingredients d' = recipe_ingredients d \<or>
     (\<exists>r. save d RecipeIngredient_model RecipeIngredient_values (recipe_ingredients d) r
            = Inr (recipe_ingredients d')) \<or>
     recipe_ingredients d' = burn (recipe_ingredients d) \<or>
     (\<exists>P. recipe_ingredients d' =
            (recipe_ingredients d)\<lparr>rows := filter P (rows (recipe_ingredients d))\<rparr>)"
  by (erule step.cases) (auto simp: op_defs and_then_Inr split: if_splits dest!: collect_Inr)

lemma step_favorites:
  "step d d' \<Longrightarrow>
     favorites d' = favorites d \<or>
     (\<exists>r. save d Favorite_model Favorite_values (favorites d) r = Inr (favorites d')) \<or>
     favorites d' = burn (favorites d) \<or>
     (\<exists>P. favorites d' = (favorites d)\<lparr>rows := filter P (rows (favorites d))\<rparr>)"
  by (erule step.cases) (auto simp: op_defs and_then_Inr split: if_splits dest!: collect_Inr)

text \<open>Invariants of the reachable states: what the database itself enforces.\<close>

lemma distinct_map_snoc:
  "distinct (map f xs) \<Longrightarrow> \<forall>y \<in> set xs. f y \<noteq> f x \<Longrightarrow> distinct (map f (xs @ [x]))"
  by (auto simp: image_iff)

lemma reachable_tags_unique:
  "reachable d \<Longrightarrow>
     distinct (map (\<lambda>row. Tag.name (snd row)) (rows (tags d))) \<and>
     distinct (map (\<lambda>row. color (snd row)) (rows (tags d))) \<and>
     distinct (map (\<lambda>row. slug (snd row)) (rows (tags d)))"
proof (induction rule: reachable.induct)
  case r_init
  then show ?case by (simp add: init_db_def empty_table_def)
next
  case (r_step d d')
  from step_tags [OF r_step.hyps(2)]
  consider (same) "tags d' = tags d"
    | (new) r where "save d Tag_model Tag_values (tags d) r = Inr (tags d')"
    | (spent) "tags d' = burn (tags d)"
    | (del) P where "tags d' = (tags d)\<lparr>rows := filter P (rows (tags d))\<rparr>"
    by blast
  then show ?case
  proof cases
    case same
    with r_step.IH show ?thesis by simp
  next
    case new
    then have rows: "rows (tags d') = rows (tags d) @ [(seq (tags d), r)]"
      and fresh: "\<And>old. old \<in> set (rows (tags d)) \<Longrightarrow>
                    Tag.name (snd old) \<noteq> Tag.name r \<and> color (snd old) \<noteq> color r \<and>
                    slug (snd old) \<noteq> slug r"
      by (simp_all add: Tag_save)
    show ?thesis
      unfolding rows using r_step.IH fresh
      by (intro conjI distinct_map_snoc) auto
  next
    case spent
    with r_step.IH show ?thesis by (simp add: burn_def)
  next
    case del
    with r_step.IH show ?thesis by (simp add: distinct_map_filter)
  qed
qed

lemma reachable_recipe_ingredients_unique:
  "reachable d \<Longrightarrow>
     distinct (map (\<lambda>row. (RecipeIngredient.recipe (snd row), ingredient (snd row)))
                   (rows (recipe_ingredients d)))"
proof (induction rule: reachable.induct)
  case r_init
  then show ?case by (simp add: init_db_def empty_table_def)
next
  case (r_step d d')
  from step_recipe_ingredients [OF r_step.hyps(2)]
  consider (same) "recipe_ingredients d' = recipe_ingredients d"
    | (new) r where "save d RecipeIngredient_model RecipeIngredient_values (recipe_ingredients d) r
                       = Inr (recipe_ingredients d')"
    | (spent) "recipe_ingredients d' = burn (recipe_ingredients d)"
    | (del) P where "recipe_ingredients d' =
                       (recipe_ingredients d)\<lparr>rows := filter P (rows (recipe_ingredients d))\<rparr>"
    by blast
  then show ?case
  proof cases
    case same
    with r_step.IH show ?thesis by simp
  next
    case new
    then have rows: "rows (recipe_ingredients d') =
                       rows (recipe_ingredients d) @ [(seq (recipe_ingredients d), r)]"
      and fresh: "\<And>old. old \<in> set (rows (recipe_ingredients d)) \<Longrightarrow>
                    \<not> (RecipeIngredient.recipe (snd old) = RecipeIngredient.recipe r \<and>
                       ingredient (snd old) = ingredient r)"
      by (simp_all add: RecipeIngredient_save)
    show ?thesis
      unfolding rows using r_step.IH fresh
      by (intro distinct_map_snoc) auto
  next
    case spent
    with r_step.IH show ?thesis by (simp add: burn_def)
  next
    case del
    with r_step.IH show ?thesis by (simp add: distinct_map_filter)
  qed
qed

lemma reachable_favorites:
  "reachable d \<Longrightarrow>
     distinct (map (\<lambda>row. (Favorite.user (snd row), Favorite.recipe (snd row)))
                   (rows (favorites d)))"
proof (induction rule: reachable.induct)
  case r_init
  then show ?case by (simp add: init_db_def empty_table_def)
next
  case (r_step d d')
  from step_favorites [OF r_step.hyps(2)]
  consider (same) "favorites d' = favorites d"
    | (new) r where "save d Favorite_model Favorite_values (favorites d) r = Inr (favorites d')"
    | (spent) "favorites d' = burn (favorites d)"
    | (del) P where "favorites d' = (favorites d)\<lparr>rows := filter P (rows (favorites d))\<rparr>"
    by blast
  then show ?case
  proof cases
    case same
    with r_step.IH show ?thesis by simp
  next
    case new
    then have rows: "rows (favorites d') = rows (favorites d) @ [(seq (favorites d), r)]"
      and fresh: "\<And>old. old \<in> set (rows (favorites d)) \<Longrightarrow>
                    \<not> (Favorite.user (snd old) = Favorite.user r \<and>
                       Favorite.recipe (snd old) = Favorite.recipe r)"
      by (simp_all add: Favorite_save)
    show ?thesis
      unfolding rows using r_step.IH fresh
      by (intro distinct_map_snoc) auto
  next
    case spent
    with r_step.IH show ?thesis by (simp add: burn_def)
  next
    case del
    with r_step.IH show ?thesis by (simp add: distinct_map_filter)
  qed
qed



section \<open>The claims\<close>

text \<open>The four unvalidated rows are stored, in reachable databases.\<close>

lemma create_ex_recipe_601: "create_Recipe ex_db ex_recipe_601 = Inr ex_db_601"
  by (simp add: create_Recipe_Inr ex_db_601_def)
     (simp add: ex_db_def ex_recipe_601_def ex_recipe_def py_def scalar_def)

lemma reachable_ex_db_601: "reachable ex_db_601"
  using reachable_ex_db create_ex_recipe_601 by (rule reachable_create_Recipe)

lemma create_ex_recipe_long: "create_Recipe ex_db ex_recipe_long = Inr ex_db_long"
  by (simp add: create_Recipe_Inr ex_db_long_def)
     (simp add: ex_db_def ex_recipe_long_def ex_recipe_def py_def scalar_def storable_replicate)

lemma reachable_ex_db_long: "reachable ex_db_long"
  using reachable_ex_db create_ex_recipe_long by (rule reachable_create_Recipe)

lemma create_ex_amount_5000: "create_RecipeIngredient ex_db ex_amount_5000 = Inr ex_db_5000"
  by (simp add: create_RecipeIngredient_Inr ex_db_5000_def)
     (simp add: ex_db_def ex_amount_5000_def)

lemma reachable_ex_db_5000: "reachable ex_db_5000"
  using reachable_ex_db create_ex_amount_5000 by (rule reachable_create_RecipeIngredient)

lemma create_ex_tag_red: "create_Tag ex_db ex_tag_red = Inr ex_db_red"
  by (simp add: create_Tag_Inr ex_db_red_def)
     (simp add: ex_db_def ex_tag_red_def ex_tag_def py_def scalar_def)

lemma reachable_ex_db_red: "reachable ex_db_red"
  using reachable_ex_db create_ex_tag_red by (rule reachable_create_Tag)

text \<open>
  C1. The claim is that every Recipe row has a \<^verbatim>\<open>cooking_time\<close> between 1 and 600.
  The bounds are validators: they are run when the fields are cleaned, and
  \<^verbatim>\<open>objects.create\<close> cleans nothing. A recipe that takes 601 minutes is created on the
  example database and is a row of the reachable database that results.
\<close>

theorem Recipe_cooking_time_601_stored:
  "create_Recipe ex_db ex_recipe_601 = Inr ex_db_601 \<and> reachable ex_db_601 \<and>
   map (\<lambda>row. cooking_time (snd row)) (rows (recipes ex_db_601)) = [45, 45, 45, 45, 45, 601]"
  using create_ex_recipe_601 reachable_ex_db_601
  by (simp add: ex_db_601_def ex_db_def ex_recipe_601_def ex_recipe_def)

text \<open>
  C1, as amended. Validation of a recipe passes only when its \<^verbatim>\<open>cooking_time\<close> is
  between 1 and 600: cleaning a recipe with \<^verbatim>\<open>cooking_time = 601\<close> reports
  \<^verbatim>\<open>max_value\<close> on the field whatever the other fields are, and cleaning one with
  \<^verbatim>\<open>cooking_time = 600\<close> reports nothing when no other field has an error. Such a
  recipe, when its values also fit their columns (the image path is at most 100
  characters long), is created and appended to the table. (Rows saved without validation
  are outside this statement.)
\<close>

theorem Recipe_cooking_time_validation:
  "(clean_fields d Recipe_model (Recipe_values r) = [] \<longrightarrow>
      1 \<le> cooking_time r \<and> cooking_time r \<le> 600) \<and>
   (''cooking_time'', ''max_value'') \<in>
      set (clean_fields d Recipe_model (Recipe_values (r\<lparr>cooking_time := 601\<rparr>))) \<and>
   ((\<forall>e \<in> set (clean_fields d Recipe_model (Recipe_values r)). fst e = ''cooking_time'') \<longrightarrow>
      clean_fields d Recipe_model (Recipe_values (r\<lparr>cooking_time := 600\<rparr>)) = []) \<and>
   ((\<forall>e \<in> set (clean_fields d Recipe_model (Recipe_values r)). fst e = ''cooking_time'') \<and>
    column_violations Recipe_model (Recipe_values (r\<lparr>cooking_time := 600\<rparr>)) = [] \<longrightarrow>
      create_Recipe d (r\<lparr>cooking_time := 600\<rparr>) =
        Inr (d\<lparr>recipes := \<lparr>rows = rows (recipes d) @ [(seq (recipes d), r\<lparr>cooking_time := 600\<rparr>)],
                            seq = Suc (seq (recipes d))\<rparr>\<rparr>))"
proof (intro conjI impI)
  assume "clean_fields d Recipe_model (Recipe_values r) = []"
  then show "1 \<le> cooking_time r" and "cooking_time r \<le> 600"
    by (simp_all add: Recipe_clean)
next
  show "(''cooking_time'', ''max_value'') \<in>
          set (clean_fields d Recipe_model (Recipe_values (r\<lparr>cooking_time := 601\<rparr>)))"
    by (simp add: cooking_time_error)
next
  assume "\<forall>e \<in> set (clean_fields d Recipe_model (Recipe_values r)). fst e = ''cooking_time''"
  then show "clean_fields d Recipe_model (Recipe_values (r\<lparr>cooking_time := 600\<rparr>)) = []"
    by (simp add: other_fields_valid Recipe_clean)
next
  assume "(\<forall>e \<in> set (clean_fields d Recipe_model (Recipe_values r)). fst e = ''cooking_time'') \<and>
    column_violations Recipe_model (Recipe_values (r\<lparr>cooking_time := 600\<rparr>)) = []"
  then show "create_Recipe d (r\<lparr>cooking_time := 600\<rparr>) =
        Inr (d\<lparr>recipes := \<lparr>rows = rows (recipes d) @ [(seq (recipes d), r\<lparr>cooking_time := 600\<rparr>)],
                            seq = Suc (seq (recipes d))\<rparr>\<rparr>)"
    by (simp add: other_fields_valid Recipe_columns create_Recipe_Inr)
qed

theorem Recipe_cooking_time_validation_witness:
  "clean_fields ex_db Recipe_model (Recipe_values ex_recipe) = [] \<and>
   cooking_time ex_recipe = 45 \<and>
   (''cooking_time'', ''max_value'') \<in>
      set (clean_fields ex_db Recipe_model (Recipe_values (ex_recipe\<lparr>cooking_time := 601\<rparr>))) \<and>
   clean_fields ex_db Recipe_model (Recipe_values (ex_recipe\<lparr>cooking_time := 600\<rparr>)) = [] \<and>
   column_violations Recipe_model (Recipe_values (ex_recipe\<lparr>cooking_time := 600\<rparr>)) = [] \<and>
   create_Recipe ex_db (ex_recipe\<lparr>cooking_time := 600\<rparr>) =
     Inr (ex_db\<lparr>recipes := \<lparr>rows = rows (recipes ex_db) @ [(6, ex_recipe\<lparr>cooking_time := 600\<rparr>)],
                            seq = 7\<rparr>\<rparr>)"
  using Recipe_cooking_time_validation [of ex_db ex_recipe]
  by (simp add: Recipe_clean other_fields_valid cooking_time_error Recipe_columns)
     (simp add: ex_db_def ex_recipe_def py_def scalar_def)

text \<open>
  C8. The claim is that every persisted Recipe row has a \<^verbatim>\<open>text\<close> of at most 1000
  characters. The bound is a validator on a text column, which has no length of its own,
  and \<^verbatim>\<open>objects.create\<close> cleans nothing: a recipe with a description of 1001 characters
  is created on the example database and is a row of the reachable database that results.
\<close>

theorem Recipe_text_1001_stored:
  "create_Recipe ex_db ex_recipe_long = Inr ex_db_long \<and> reachable ex_db_long \<and>
   map (\<lambda>row. length (text' (snd row))) (rows (recipes ex_db_long)) = [5, 5, 5, 5, 5, 1001]"
  using create_ex_recipe_long reachable_ex_db_long
  by (simp add: ex_db_long_def ex_db_def ex_recipe_long_def ex_recipe_def py_def)

text \<open>
  C8, as amended. A recipe whose \<^verbatim>\<open>text\<close> is longer than 1000 characters is rejected by
  validation: cleaning reports \<^verbatim>\<open>max_length\<close> on the field, and a recipe that passes
  validation has a text of at most 1000 characters. (Rows saved without validation are
  outside this statement.)
\<close>

theorem Recipe_text_validation:
  "(length (text' r) > 1000 \<longrightarrow>
      (''text'', ''max_length'') \<in> set (clean_fields d Recipe_model (Recipe_values r))) \<and>
   (clean_fields d Recipe_model (Recipe_values r) = [] \<longrightarrow> length (text' r) \<le> 1000)"
  by (simp add: text_error Recipe_clean)

theorem Recipe_text_validation_witness:
  "length (text' ex_recipe_long) = 1001 \<and>
   (''text'', ''max_length'') \<in> set (clean_fields ex_db Recipe_model (Recipe_values ex_recipe_long)) \<and>
   clean_fields ex_db Recipe_model (Recipe_values ex_recipe) = [] \<and>
   length (text' ex_recipe) = 5"
  using Recipe_text_validation [of ex_recipe_long ex_db] Recipe_text_validation [of ex_recipe ex_db]
  by (simp add: Recipe_clean text_error) (simp add: ex_db_def ex_recipe_long_def ex_recipe_def py_def)

text \<open>
  A second favourite with the user and recipe of an existing row is refused by the unique
  constraint that \<^verbatim>\<open>Favorite.Meta\<close> declares.
\<close>

lemma create_Favorite_duplicate:
  assumes "Favorite.user r \<in> set (users d)"
    and "Favorite.recipe r \<in> set (map fst (rows (recipes d)))"
    and "(Favorite.user r, Favorite.recipe r) \<in>
           set (map (\<lambda>row. (Favorite.user (snd row), Favorite.recipe (snd row))) (rows (favorites d)))"
  shows "create_Favorite d r = Inl (IntegrityError ''unique_favorite'')"
proof -
  from assms(3) have "list_ex (\<lambda>old. violates (UniqueConstraint [''user'', ''recipe''] ''unique_favorite'')
                            (Favorite_values (snd old)) (Favorite_values r)) (rows (favorites d))"
    by (force simp: list_ex_iff Favorite_values_def)
  with assms(1,2) show ?thesis
    by (simp add: create_Favorite_def save_def db_constraints_def column_violations_def
        check_violations_def fk_violations_def Favorite_model_def column_names_def and_then_def
        Favorite_values_def del: violates.simps)
qed

text \<open>
  C3. In every reachable database each (user, recipe) pair occurs at most once among the
  Favorite rows. Where the user and the recipe exist and the pair is not yet a favourite,
  the first insert of the pair succeeds, the second fails on \<^verbatim>\<open>unique_favorite\<close>, and
  exactly one row with the pair is left.
\<close>

theorem Favorite_pair_unique:
  "(reachable d \<longrightarrow>
      distinct (map (\<lambda>row. (Favorite.user (snd row), Favorite.recipe (snd row)))
                    (rows (favorites d)))) \<and>
   (u \<in> set (users d) \<and> rc \<in> set (map fst (rows (recipes d))) \<and>
    (u, rc) \<notin> set (map (\<lambda>row. (Favorite.user (snd row), Favorite.recipe (snd row)))
                       (rows (favorites d))) \<longrightarrow>
      (\<exists>d1. create_Favorite d \<lparr>Favorite.user = u, Favorite.recipe = rc\<rparr> = Inr d1 \<and>
            create_Favorite d1 \<lparr>Favorite.user = u, Favorite.recipe = rc\<rparr>
              = Inl (IntegrityError ''unique_favorite'') \<and>
            length (filter (\<lambda>row. snd row = \<lparr>Favorite.user = u, Favorite.recipe = rc\<rparr>)
                           (rows (favorites d1))) = 1))"
proof (intro conjI impI)
  assume "reachable d"
  then show "distinct (map (\<lambda>row. (Favorite.user (snd row), Favorite.recipe (snd row)))
                           (rows (favorites d)))"
    by (rule reachable_favorites)
next
  let ?r = "\<lparr>Favorite.user = u, Favorite.recipe = rc\<rparr>"
  let ?d1 = "d\<lparr>favorites := \<lparr>rows = rows (favorites d) @ [(seq (favorites d), ?r)],
                               seq = Suc (seq (favorites d))\<rparr>\<rparr>"
  assume a: "u \<in> set (users d) \<and> rc \<in> set (map fst (rows (recipes d))) \<and>
    (u, rc) \<notin> set (map (\<lambda>row. (Favorite.user (snd row), Favorite.recipe (snd row)))
                       (rows (favorites d)))"
  then have first: "create_Favorite d ?r = Inr ?d1"
    by (force simp: create_Favorite_Inr)
  from a have second: "create_Favorite ?d1 ?r = Inl (IntegrityError ''unique_favorite'')"
    by (intro create_Favorite_duplicate) simp_all
  from a have "filter (\<lambda>row. snd row = ?r) (rows (favorites d)) = []"
    by (force simp: filter_empty_conv)
  then have "length (filter (\<lambda>row. snd row = ?r) (rows (favorites ?d1))) = 1"
    by simp
  with first second show "\<exists>d1. create_Favorite d ?r = Inr d1 \<and>
            create_Favorite d1 ?r = Inl (IntegrityError ''unique_favorite'') \<and>
            length (filter (\<lambda>row. snd row = ?r) (rows (favorites d1))) = 1"
    by blast
qed

theorem Favorite_pair_unique_witness:
  "reachable ex_db \<and>
   map (\<lambda>row. (Favorite.user (snd row), Favorite.recipe (snd row))) (rows (favorites ex_db)) = [(1, 4)] \<and>
   1 \<in> set (users ex_db) \<and> 5 \<in> set (map fst (rows (recipes ex_db))) \<and>
   (\<exists>d1. create_Favorite ex_db \<lparr>Favorite.user = 1, Favorite.recipe = 5\<rparr> = Inr d1 \<and>
         create_Favorite d1 \<lparr>Favorite.user = 1, Favorite.recipe = 5\<rparr>
           = Inl (IntegrityError ''unique_favorite'') \<and>
         length (filter (\<lambda>row. snd row = \<lparr>Favorite.user = 1, Favorite.recipe = 5\<rparr>)
                        (rows (favorites d1))) = 1)"
  using Favorite_pair_unique [of ex_db 1 5] reachable_ex_db
  by (simp add: ex_db_def)

text \<open>
  C5. The claim is that every RecipeIngredient row has an \<^verbatim>\<open>amount\<close> between 1 and
  1000. The bounds are validators, and \<^verbatim>\<open>objects.create\<close> cleans nothing: 5000 units
  of an ingredient are stored on the example database, in a reachable database.
\<close>

theorem RecipeIngredient_amount_5000_stored:
  "create_RecipeIngredient ex_db ex_amount_5000 = Inr ex_db_5000 \<and> reachable ex_db_5000 \<and>
   map (\<lambda>row. amount (snd row)) (rows (recipe_ingredients ex_db_5000)) = [1000, 5000]"
  using create_ex_amount_5000 reachable_ex_db_5000
  by (simp add: ex_db_5000_def ex_db_def ex_amount_5000_def)

text \<open>
  C5, as amended. In every reachable database each (recipe, ingredient) pair occurs at
  most once among the RecipeIngredient rows, and a row whose pair is already present is
  rejected. Validation of a row passes only when its \<^verbatim>\<open>amount\<close> is between 1 and 1000,
  and fails for every amount outside that range. (Rows saved without validation are
  outside the statement about the amount.)
\<close>

theorem RecipeIngredient_unique_and_amount_validation:
  "(reachable d \<longrightarrow>
      distinct (map (\<lambda>row. (RecipeIngredient.recipe (snd row), ingredient (snd row)))
                    (rows (recipe_ingredients d)))) \<and>
   ((RecipeIngredient.recipe r, ingredient r) \<in>
       set (map (\<lambda>row. (RecipeIngredient.recipe (snd row), ingredient (snd row)))
                (rows (recipe_ingredients d))) \<longrightarrow>
      (\<exists>e. create_RecipeIngredient d r = Inl e)) \<and>
   (clean_fields d RecipeIngredient_model (RecipeIngredient_values r) = [] \<longrightarrow>
      1 \<le> amount r \<and> amount r \<le> 1000) \<and>
   (amount r < 1 \<or> amount r > 1000 \<longrightarrow>
      clean_fields d RecipeIngredient_model (RecipeIngredient_values r) \<noteq> [])"
proof (intro conjI impI)
  assume "reachable d"
  then show "distinct (map (\<lambda>row. (RecipeIngredient.recipe (snd row), ingredient (snd row)))
                    (rows (recipe_ingredients d)))"
    by (rule reachable_recipe_ingredients_unique)
next
  assume "(RecipeIngredient.recipe r, ingredient r) \<in>
       set (map (\<lambda>row. (RecipeIngredient.recipe (snd row), ingredient (snd row)))
                (rows (recipe_ingredients d)))"
  then have "\<And>d'. create_RecipeIngredient d r \<noteq> Inr d'"
    by (force simp: create_RecipeIngredient_Inr)
  then show "\<exists>e. create_RecipeIngredient d r = Inl e"
    by (rule not_Inr_is_Inl)
next
  assume "clean_fields d RecipeIngredient_model (RecipeIngredient_values r) = []"
  then show "1 \<le> amount r" and "amount r \<le> 1000"
    by (simp_all add: RecipeIngredient_clean)
next
  assume "amount r < 1 \<or> amount r > 1000"
  then show "clean_fields d RecipeIngredient_model (RecipeIngredient_values r) \<noteq> []"
    by (auto simp: RecipeIngredient_clean)
qed

theorem RecipeIngredient_unique_and_amount_validation_witness:
  "reachable ex_db_5000 \<and>
   map (\<lambda>row. (RecipeIngredient.recipe (snd row), ingredient (snd row)))
       (rows (recipe_ingredients ex_db_5000)) = [(5, 1), (4, 1)] \<and>
   (\<exists>e. create_RecipeIngredient ex_db_5000 \<lparr>RecipeIngredient.recipe = 4, ingredient = 1, amount = 3\<rparr>
          = Inl e) \<and>
   clean_fields ex_db_5000 RecipeIngredient_model
     (RecipeIngredient_values \<lparr>RecipeIngredient.recipe = 3, ingredient = 1, amount = 1000\<rparr>) = [] \<and>
   clean_fields ex_db_5000 RecipeIngredient_model (RecipeIngredient_values ex_amount_5000) \<noteq> []"
  using RecipeIngredient_unique_and_amount_validation
          [of ex_db_5000 "\<lparr>RecipeIngredient.recipe = 4, ingredient = 1, amount = 3\<rparr>"]
        RecipeIngredient_unique_and_amount_validation
          [of ex_db_5000 ex_amount_5000]
        reachable_ex_db_5000
  by (simp add: RecipeIngredient_clean) (simp add: ex_db_5000_def ex_db_def ex_amount_5000_def)

text \<open>
  C6. The claim is that the \<^verbatim>\<open>color\<close> of every Tag row matches
  \<^verbatim>\<open>^#[A-Fa-f0-9]{6}$\<close>. The expression is a validator, and \<^verbatim>\<open>objects.create\<close>
  cleans nothing: a tag whose colour is the word red is stored on the example database,
  in a reachable database.
\<close>

theorem Tag_color_red_stored:
  "create_Tag ex_db ex_tag_red = Inr ex_db_red \<and> reachable ex_db_red \<and>
   map (\<lambda>row. color (snd row)) (rows (tags ex_db_red)) = [py ''#1aB2cF'', py ''red''] \<and>
   \<not> regex_search (Regex [Times 1 (Lit CHR ''#''),
                         Times 6 (Class [Range CHR ''A'' CHR ''F'', Range CHR ''a'' CHR ''f'',
                                         Range CHR ''0'' CHR ''9''])] Dollar)
                  (py ''red'')"
  using create_ex_tag_red reachable_ex_db_red
  by (simp add: ex_db_red_def ex_db_def ex_tag_red_def ex_tag_def py_def)

text \<open>
  C6, as amended. In every reachable database no two Tag rows share a color, a name or a
  slug, and creating a tag whose color, name or slug equals that of an existing row
  fails. Validation of a tag passes only when its \<^verbatim>\<open>color\<close> matches
  \<^verbatim>\<open>^#[A-Fa-f0-9]{6}$\<close> (and then, the field being at most 7 characters long, is
  exactly the seven characters), and fails for every color that does not match. (Rows
  saved without validation are outside the statement about the format.)
\<close>

theorem Tag_unique_and_color_validation:
  "(reachable d \<longrightarrow>
      distinct (map (\<lambda>row. color (snd row)) (rows (tags d))) \<and>
      distinct (map (\<lambda>row. Tag.name (snd row)) (rows (tags d))) \<and>
      distinct (map (\<lambda>row. slug (snd row)) (rows (tags d)))) \<and>
   (color r \<in> set (map (\<lambda>row. color (snd row)) (rows (tags d))) \<or>
    Tag.name r \<in> set (map (\<lambda>row. Tag.name (snd row)) (rows (tags d))) \<or>
    slug r \<in> set (map (\<lambda>row. slug (snd row)) (rows (tags d))) \<longrightarrow>
      (\<exists>e. create_Tag d r = Inl e)) \<and>
   (clean_fields d Tag_model (Tag_values r) = [] \<longrightarrow>
      regex_search (Regex [Times 1 (Lit CHR ''#''),
                           Times 6 (Class [Range CHR ''A'' CHR ''F'', Range CHR ''a'' CHR ''f'',
                                           Range CHR ''0'' CHR ''9''])] Dollar)
                   (color r) \<and>
      length (color r) = 7) \<and>
   (\<not> regex_search (Regex [Times 1 (Lit CHR ''#''),
                           Times 6 (Class [Range CHR ''A'' CHR ''F'', Range CHR ''a'' CHR ''f'',
                                           Range CHR ''0'' CHR ''9''])] Dollar)
                    (color r) \<longrightarrow>
      clean_fields d Tag_model (Tag_values r) \<noteq> [])"
proof (intro conjI impI)
  assume "reachable d"
  then show "distinct (map (\<lambda>row. color (snd row)) (rows (tags d)))"
    and "distinct (map (\<lambda>row. Tag.name (snd row)) (rows (tags d)))"
    and "distinct (map (\<lambda>row. slug (snd row)) (rows (tags d)))"
    by (simp_all add: reachable_tags_unique)
next
  assume "color r \<in> set (map (\<lambda>row. color (snd row)) (rows (tags d))) \<or>
    Tag.name r \<in> set (map (\<lambda>row. Tag.name (snd row)) (rows (tags d))) \<or>
    slug r \<in> set (map (\<lambda>row. slug (snd row)) (rows (tags d)))"
  then have "\<And>d'. create_Tag d r \<noteq> Inr d'"
    by (force simp: create_Tag_Inr)
  then show "\<exists>e. create_Tag d r = Inl e"
    by (rule not_Inr_is_Inl)
next
  assume c: "clean_fields d Tag_model (Tag_values r) = []"
  then show "regex_search (Regex [Times 1 (Lit CHR ''#''),
                           Times 6 (Class [Range CHR ''A'' CHR ''F'', Range CHR ''a'' CHR ''f'',
                                           Range CHR ''0'' CHR ''9''])] Dollar)
                   (color r)"
    unfolding Tag_clean hex_regex_claim by blast
  from c show "length (color r) = 7"
    unfolding Tag_clean by (blast intro: hex_regex_len)
next
  assume "\<not> regex_search (Regex [Times 1 (Lit CHR ''#''),
                           Times 6 (Class [Range CHR ''A'' CHR ''F'', Range CHR ''a'' CHR ''f'',
                                           Range CHR ''0'' CHR ''9''])] Dollar)
                    (color r)"
  then show "clean_fields d Tag_model (Tag_values r) \<noteq> []"
    unfolding Tag_clean hex_regex_claim by blast
qed

theorem Tag_unique_and_color_validation_witness:
  "reachable ex_db \<and>
   map (\<lambda>row. color (snd row)) (rows (tags ex_db)) = [py ''#1aB2cF''] \<and>
   (\<exists>e. create_Tag ex_db \<lparr>Tag.name = py ''Dinner'', color = py ''#1aB2cF'', slug = py ''dinner''\<rparr> = Inl e) \<and>
   (\<exists>e. create_Tag ex_db \<lparr>Tag.name = py ''Lunch'', color = py ''#000000'', slug = py ''dinner''\<rparr> = Inl e) \<and>
   (\<exists>e. create_Tag ex_db \<lparr>Tag.name = py ''Dinner'', color = py ''#000000'', slug = py ''lunch''\<rparr> = Inl e) \<and>
   clean_fields ex_db Tag_model (Tag_values ex_tag) = [] \<and>
   color ex_tag = py ''#1aB2cF'' \<and> length (py ''#1aB2cF'') = 7 \<and>
   clean_fields ex_db Tag_model (Tag_values ex_tag_red) \<noteq> []"
  using Tag_unique_and_color_validation
          [of ex_db "\<lparr>Tag.name = py ''Dinner'', color = py ''#1aB2cF'', slug = py ''dinner''\<rparr>"]
        Tag_unique_and_color_validation
          [of ex_db "\<lparr>Tag.name = py ''Lunch'', color = py ''#000000'', slug = py ''dinner''\<rparr>"]
        Tag_unique_and_color_validation
          [of ex_db "\<lparr>Tag.name = py ''Dinner'', color = py ''#000000'', slug = py ''lunch''\<rparr>"]
        Tag_unique_and_color_validation [of ex_db ex_tag]
        Tag_unique_and_color_validation [of ex_db ex_tag_red]
        reachable_ex_db
  by (simp add: Tag_clean) (simp add: ex_db_def ex_tag_def ex_tag_red_def py_def validate_slug_def)



text \<open>
  C2. The claim is that a (user, recipe) pair occurs at most once among the ShoppingCart
  rows and that a second row with the pair of an existing one is refused. The class
  assigns its \<^verbatim>\<open>constraints\<close> list in the class body, outside \<^verbatim>\<open>Meta\<close>, so the table
  has no unique constraint: on the example database, where user 1 and recipe 5 exist,
  the pair (1, 5) is inserted twice and both rows are stored.
\<close>

theorem ShoppingCart_duplicate_accepted:
  "db_constraints ShoppingCart_model = [] \<and>
   (\<exists>d1 d2. create_ShoppingCart ex_db \<lparr>ShoppingCart.user = 1, ShoppingCart.recipe = 5\<rparr> = Inr d1 \<and>
            create_ShoppingCart d1 \<lparr>ShoppingCart.user = 1, ShoppingCart.recipe = 5\<rparr> = Inr d2 \<and>
            map snd (rows (shopping_carts d2)) =
              [\<lparr>ShoppingCart.user = 1, ShoppingCart.recipe = 4\<rparr>,
               \<lparr>ShoppingCart.user = 1, ShoppingCart.recipe = 5\<rparr>,
               \<lparr>ShoppingCart.user = 1, ShoppingCart.recipe = 5\<rparr>])"
  by (simp add: create_ShoppingCart_Inr ex_db_def db_constraints_def ShoppingCart_model_def)

text \<open>
  C7. The claim places the constraint over \<^verbatim>\<open>user\<close> and \<^verbatim>\<open>recipe\<close> in
  \<^verbatim>\<open>RecipeTag.Meta.constraints\<close>. The \<^verbatim>\<open>Meta\<close> of RecipeTag declares no constraint at
  all, under any name.
\<close>

theorem RecipeTag_Meta_declares_no_constraint:
  "\<not> (\<exists>n. UniqueConstraint [''user'', ''recipe''] n \<in> set (Meta_constraints RecipeTag_model))"
  by (simp add: RecipeTag_model_def)


text \<open>
  C7, as amended. RecipeTag assigns a \<^verbatim>\<open>constraints\<close> list that names the fields
  \<^verbatim>\<open>user\<close> and \<^verbatim>\<open>recipe\<close> in the class body, outside \<^verbatim>\<open>Meta\<close>, and its \<^verbatim>\<open>Meta\<close>
  declares none. The columns of RecipeTag are \<^verbatim>\<open>recipe\<close> and \<^verbatim>\<open>tag\<close>, so the constraint
  does not resolve, and with the list moved into \<^verbatim>\<open>Meta\<close> every save would fail on it.
  As placed it is not read: the table has no unique constraint, and a row whose recipe and
  tag exist is inserted whatever rows the table already holds.
\<close>

theorem RecipeTag_constraint_outside_Meta:
  "class_constraints RecipeTag_model = [UniqueConstraint [''user'', ''recipe''] ''unique_tag''] \<and>
   Meta_constraints RecipeTag_model = [] \<and>
   map fst (model_fields RecipeTag_model) = [''recipe'', ''tag''] \<and>
   \<not> resolves RecipeTag_model (UniqueConstraint [''user'', ''recipe''] ''unique_tag'') \<and>
   save d (RecipeTag_model\<lparr>Meta_constraints := class_constraints RecipeTag_model\<rparr>)
        RecipeTag_values t r = Inl (FieldError ''unique_tag'') \<and>
   db_constraints RecipeTag_model = [] \<and>
   (RecipeTag.recipe r \<in> set (map fst (rows (recipes d))) \<and>
    tag r \<in> set (map fst (rows (tags d))) \<longrightarrow>
      create_RecipeTag d r =
        Inr (d\<lparr>recipe_tags := \<lparr>rows = rows (recipe_tags d) @ [(seq (recipe_tags d), r)],
                                seq = Suc (seq (recipe_tags d))\<rparr>\<rparr>))"
proof (intro conjI impI)
  show "save d (RecipeTag_model\<lparr>Meta_constraints := class_constraints RecipeTag_model\<rparr>)
        RecipeTag_values t r = Inl (FieldError ''unique_tag'')"
    by (simp add: save_def db_constraints_def RecipeTag_model_def column_names_def)
next
  assume "RecipeTag.recipe r \<in> set (map fst (rows (recipes d))) \<and>
    tag r \<in> set (map fst (rows (tags d)))"
  then show "create_RecipeTag d r =
        Inr (d\<lparr>recipe_tags := \<lparr>rows = rows (recipe_tags d) @ [(seq (recipe_tags d), r)],
                                seq = Suc (seq (recipe_tags d))\<rparr>\<rparr>)"
    by (simp add: create_RecipeTag_Inr)
qed (simp_all add: RecipeTag_model_def db_constraints_def column_names_def)

theorem RecipeTag_constraint_outside_Meta_witness:
  "map snd (rows (recipe_tags ex_db)) = [\<lparr>RecipeTag.recipe = 5, tag = 1\<rparr>] \<and>
   5 \<in> set (map fst (rows (recipes ex_db))) \<and> 1 \<in> set (map fst (rows (tags ex_db))) \<and>
   (\<exists>d'. create_RecipeTag ex_db \<lparr>RecipeTag.recipe = 5, tag = 1\<rparr> = Inr d' \<and>
         map snd (rows (recipe_tags d')) =
           [\<lparr>RecipeTag.recipe = 5, tag = 1\<rparr>, \<lparr>RecipeTag.recipe = 5, tag = 1\<rparr>])"
  using RecipeTag_constraint_outside_Meta [of ex_db "recipe_tags ex_db" "\<lparr>RecipeTag.recipe = 5, tag = 1\<rparr>"]
  by (simp add: ex_db_def)

text \<open>Which rows of the four association tables a deletion of recipes collects.\<close>

lemma referencing_RecipeIngredient:
  "referencing RecipeIngredient_model RecipeIngredient_values RecipeM od ids row
     \<longleftrightarrow> od = CASCADE \<and> RecipeIngredient.recipe (snd row) \<in> set ids"
  by (auto simp: referencing_def RecipeIngredient_model_def RecipeIngredient_values_def)

lemma referencing_RecipeTag:
  "referencing RecipeTag_model RecipeTag_values RecipeM od ids row
     \<longleftrightarrow> od = CASCADE \<and> RecipeTag.recipe (snd row) \<in> set ids"
  by (auto simp: referencing_def RecipeTag_model_def RecipeTag_values_def)

lemma referencing_Favorite:
  "referencing Favorite_model Favorite_values RecipeM od ids row
     \<longleftrightarrow> od = CASCADE \<and> Favorite.recipe (snd row) \<in> set ids"
  by (auto simp: referencing_def Favorite_model_def Favorite_values_def)

lemma referencing_ShoppingCart:
  "referencing ShoppingCart_model ShoppingCart_values RecipeM od ids row
     \<longleftrightarrow> od = CASCADE \<and> ShoppingCart.recipe (snd row) \<in> set ids"
  by (auto simp: referencing_def ShoppingCart_model_def ShoppingCart_values_def)

text \<open>
  C4. Deleting a recipe always succeeds, and afterwards the RecipeIngredient, RecipeTag,
  Favorite and ShoppingCart tables hold exactly the rows they held before whose
  \<^verbatim>\<open>recipe\<close> is another recipe, in the same order; the Recipe table has lost the row
  with the deleted key only, and users, tags and ingredients are unchanged.
\<close>

theorem delete_Recipe_cascades:
  "\<exists>d'. delete_Recipe i d = Inr d' \<and>
     rows (recipes d') = filter (\<lambda>row. fst row \<noteq> i) (rows (recipes d)) \<and>
     rows (recipe_ingredients d') =
       filter (\<lambda>row. RecipeIngredient.recipe (snd row) \<noteq> i) (rows (recipe_ingredients d)) \<and>
     rows (recipe_tags d') = filter (\<lambda>row. RecipeTag.recipe (snd row) \<noteq> i) (rows (recipe_tags d)) \<and>
     rows (favorites d') = filter (\<lambda>row. Favorite.recipe (snd row) \<noteq> i) (rows (favorites d)) \<and>
     rows (shopping_carts d') =
       filter (\<lambda>row. ShoppingCart.recipe (snd row) \<noteq> i) (rows (shopping_carts d)) \<and>
     users d' = users d \<and> tags d' = tags d \<and> ingredients d' = ingredients d"
  by (simp add: delete_Recipe_def delete_Recipes_def collect_def and_then_def remove_ids_def
      referencing_RecipeIngredient referencing_RecipeTag referencing_Favorite
      referencing_ShoppingCart list_ex_iff)

theorem delete_Recipe_cascades_witness:
  "\<exists>d'. delete_Recipe 5 ex_db = Inr d' \<and>
     map fst (rows (recipes d')) = [1, 2, 3, 4] \<and>
     rows (recipe_ingredients d') = [] \<and>
     rows (recipe_tags d') = [] \<and>
     rows (favorites d') = rows (favorites ex_db) \<and>
     rows (shopping_carts d') = rows (shopping_carts ex_db) \<and>
     users d' = users ex_db \<and> tags d' = tags ex_db \<and> ingredients d' = ingredients ex_db"
  using delete_Recipe_cascades [of 5 ex_db]
  by (auto simp: ex_db_def)

text \<open>
  The sort keys of the declared orderings, and the listings they give: recipes by
  \<^verbatim>\<open>id\<close>, descending; tags and ingredients by \<^verbatim>\<open>name\<close>, ascending.
\<close>

lemma key_of_id:
  "key_of (collate :: pystr \<Rightarrow> 'k) vals ''id'' = (\<lambda>row. (int (fst row), None :: 'k option))"
  by (rule ext) (simp add: key_of_def row_values_def)

lemma key_of_Tag_name:
  "key_of collate Tag_values ''name'' = (\<lambda>row. (0, Some (collate (Tag.name (snd row)))))"
  by (rule ext) (simp add: key_of_def row_values_def Tag_values_def)

lemma key_of_Ingredient_name:
  "key_of collate Ingredient_values ''name'' =
     (\<lambda>row. (0, Some (collate (Ingredient.name (snd row)))))"
  by (rule ext) (simp add: key_of_def row_values_def Ingredient_values_def)

lemma sorted_id_keys:
  "sorted (map (\<lambda>row. (int (fst row), None :: 'k::linorder option)) ys) \<Longrightarrow> sorted (map fst ys)"
  by (induction ys) auto

lemma sorted_name_keys:
  "sorted (map (\<lambda>row. (0 :: int, Some (f row :: 'k::linorder))) ys) \<Longrightarrow> sorted (map f ys)"
  by (induction ys) auto

lemma list_Recipes_eq:
  "list_Recipes (collate :: pystr \<Rightarrow> 'k::linorder) d =
     Inr (rev (sort_key (\<lambda>row. (int (fst row), None :: 'k option)) (rev (rows (recipes d)))))"
  by (simp add: list_Recipes_def objects_all_def Recipe_model_def and_then_def key_of_id)

lemma list_Tags_eq:
  "list_Tags collate d =
     Inr (sort_key (\<lambda>row. (0 :: int, Some (collate (Tag.name (snd row))))) (rows (tags d)))"
  by (simp add: list_Tags_def objects_all_def Tag_model_def and_then_def key_of_Tag_name
      column_names_def)

lemma list_Ingredients_eq:
  "list_Ingredients collate d =
     Inr (sort_key (\<lambda>row. (0 :: int, Some (collate (Ingredient.name (snd row)))))
            (rows (ingredients d)))"
  by (simp add: list_Ingredients_def objects_all_def Ingredient_model_def and_then_def
      key_of_Ingredient_name column_names_def)

text \<open>
  Keys are handed out in increasing order and never reused, so in a reachable database the
  recipes stand in the table in ascending order of \<^verbatim>\<open>id\<close> and the listing is the table
  reversed: the newest recipe first.
\<close>

lemma reachable_recipe_ids:
  "reachable d \<Longrightarrow>
     sorted_wrt (<) (map fst (rows (recipes d))) \<and>
     (\<forall>row \<in> set (rows (recipes d)). fst row < seq (recipes d))"
proof (induction rule: reachable.induct)
  case r_init
  then show ?case by (simp add: init_db_def empty_table_def)
next
  case (r_step d d')
  from step_recipes [OF r_step.hyps(2)]
  consider (same) "recipes d' = recipes d"
    | (new) r where "save d Recipe_model Recipe_values (recipes d) r = Inr (recipes d')"
    | (spent) "recipes d' = burn (recipes d)"
    | (del) P where "recipes d' = (recipes d)\<lparr>rows := filter P (rows (recipes d))\<rparr>"
    by blast
  then show ?case
  proof cases
    case same
    with r_step.IH show ?thesis by simp
  next
    case new
    then have "recipes d' = \<lparr>rows = rows (recipes d) @ [(seq (recipes d), r)],
                             seq = Suc (seq (recipes d))\<rparr>"
      by (simp add: Recipe_save)
    with r_step.IH show ?thesis
      by (auto simp: sorted_wrt_append less_Suc_eq)
  next
    case spent
    with r_step.IH show ?thesis
      by (auto simp: burn_def less_Suc_eq)
  next
    case del
    have "sorted_wrt (<) (map fst (filter P (rows (recipes d))))"
      using r_step.IH by (simp add: sorted_wrt_map sorted_wrt_filter)
    with del r_step.IH show ?thesis by simp
  qed
qed

lemma sort_desc_ids:
  fixes xs :: "(nat \<times> 'r) list"
  assumes "sorted_wrt (<) (map fst xs)"
  shows "sort_key (\<lambda>row. (int (fst row), None :: 'k::linorder option)) (rev xs) = xs"
proof -
  let ?k = "\<lambda>row :: nat \<times> 'r. (int (fst row), None :: 'k option)"
  let ?ys = "sort_key ?k (rev xs)"
  have d: "distinct (map fst xs)" and s: "sorted (map fst xs)"
    using assms by (simp_all add: strict_sorted_iff)
  have m: "mset ?ys = mset xs" by simp
  then have set_eq: "set ?ys = set xs" by (metis set_mset_mset)
  have "mset (map fst ?ys) = mset (map fst xs)" using m by (metis mset_map)
  then have d': "distinct (map fst ?ys)" using d by (metis mset_eq_imp_distinct_iff)
  have s': "sorted (map fst ?ys)" by (rule sorted_id_keys) (rule sorted_sort_key)
  have "map fst ?ys = map fst xs"
    using s' d' s d set_eq by (intro sorted_distinct_set_unique) simp_all
  moreover have "inj_on fst (set ?ys \<union> set xs)"
    using d set_eq by (simp add: distinct_map)
  ultimately show ?thesis by (rule map_inj_on)
qed

lemma list_Recipes_newest_first:
  "reachable d \<Longrightarrow> list_Recipes collate d = Inr (rev (rows (recipes d)))"
  by (simp add: list_Recipes_eq sort_desc_ids reachable_recipe_ids)

text \<open>
  C9. The listing of each of the three models succeeds and is a rearrangement of the
  rows of its table: recipes come in descending order of \<^verbatim>\<open>id\<close>, which in a
  reachable database is the reverse of the order of insertion, and tags and ingredients
  in ascending order of \<^verbatim>\<open>name\<close> under the collation of the database.
\<close>

theorem default_ordering:
  "(\<exists>xs. list_Recipes (collate :: pystr \<Rightarrow> 'k::linorder) d = Inr xs \<and> mset xs = mset (rows (recipes d)) \<and>
         sorted (rev (map fst xs))) \<and>
   (reachable d \<longrightarrow> list_Recipes collate d = Inr (rev (rows (recipes d)))) \<and>
   (\<exists>ys. list_Tags collate d = Inr ys \<and> mset ys = mset (rows (tags d)) \<and>
         sorted (map (\<lambda>row. collate (Tag.name (snd row))) ys)) \<and>
   (\<exists>zs. list_Ingredients collate d = Inr zs \<and> mset zs = mset (rows (ingredients d)) \<and>
         sorted (map (\<lambda>row. collate (Ingredient.name (snd row))) zs))"
proof (intro conjI)
  let ?k = "\<lambda>row :: nat \<times> Recipe. (int (fst row), None :: 'k option)"
  have "sorted (map fst (sort_key ?k (rev (rows (recipes d)))))"
    by (rule sorted_id_keys) (rule sorted_sort_key)
  then show "\<exists>xs. list_Recipes collate d = Inr xs \<and> mset xs = mset (rows (recipes d)) \<and>
         sorted (rev (map fst xs))"
    by (simp add: list_Recipes_eq rev_map)
next
  show "reachable d \<longrightarrow> list_Recipes collate d = Inr (rev (rows (recipes d)))"
    by (simp add: list_Recipes_newest_first)
next
  have "sorted (map (\<lambda>row. collate (Tag.name (snd row)))
          (sort_key (\<lambda>row. (0 :: int, Some (collate (Tag.name (snd row))))) (rows (tags d))))"
    by (rule sorted_name_keys) (rule sorted_sort_key)
  then show "\<exists>ys. list_Tags collate d = Inr ys \<and> mset ys = mset (rows (tags d)) \<and>
         sorted (map (\<lambda>row. collate (Tag.name (snd row))) ys)"
    by (simp add: list_Tags_eq)
next
  have "sorted (map (\<lambda>row. collate (Ingredient.name (snd row)))
          (sort_key (\<lambda>row. (0 :: int, Some (collate (Ingredient.name (snd row)))))
             (rows (ingredients d))))"
    by (rule sorted_name_keys) (rule sorted_sort_key)
  then show "\<exists>zs. list_Ingredients collate d = Inr zs \<and> mset zs = mset (rows (ingredients d)) \<and>
         sorted (map (\<lambda>row. collate (Ingredient.name (snd row))) zs)"
    by (simp add: list_Ingredients_eq)
qed

theorem default_ordering_witness:
  "reachable ex_db \<and>
   (\<exists>xs. list_Recipes (\<lambda>x. x) ex_db = Inr xs \<and> map fst xs = [5, 4, 3, 2, 1]) \<and>
   map fst (rows (recipes ex_db2)) = [1, 2, 3, 4, 5] \<and>
   (\<exists>xs. list_Recipes (\<lambda>x. x) ex_db2 = Inr xs \<and> map fst xs = [5, 4, 3, 2, 1]) \<and>
   map (\<lambda>row. Tag.name (snd row)) (rows (tags ex_db2)) = [py ''Lunch'', py ''Dinner''] \<and>
   (\<exists>ys. list_Tags (\<lambda>x. x) ex_db2 = Inr ys \<and>
         map (\<lambda>row. Tag.name (snd row)) ys = [py ''Dinner'', py ''Lunch'']) \<and>
   map (\<lambda>row. Ingredient.name (snd row)) (rows (ingredients ex_db2)) = [py ''Salt'', py ''Flour''] \<and>
   (\<exists>zs. list_Ingredients (\<lambda>x. x) ex_db2 = Inr zs \<and>
         map (\<lambda>row. Ingredient.name (snd row)) zs = [py ''Flour'', py ''Salt''])"
  using default_ordering [of "\<lambda>x. x" ex_db2] default_ordering [of "\<lambda>x. x" ex_db]
    reachable_ex_db
  by (simp add: list_Recipes_eq list_Tags_eq list_Ingredients_eq ex_db2_def ex_db_def
      ex_tag_def ex_tag2_def ex_ingredient_def ex_ingredient2_def py_def)

end
